theory Spec2Isabelle
  imports Main "HOL-Library.Word"
begin

unbundle bit_operations_syntax

section \<open>JavaScript values\<close>

text \<open>
  The configuration objects the plugins read are untyped JavaScript values
  (\<^verbatim>\<open>unknown\<close> in the TypeScript source).  An object is an association list of its own
  properties; reading a property that is not there yields \<^verbatim>\<open>undefined\<close>.  Strings are
  byte strings: a character outside ASCII stands as its UTF-8 bytes.
\<close>

datatype jsval =
    JUndefined
  | JNull
  | JBool bool
  | JNum int
  | JStr string
  | JArr "jsval list"
  | JObj "(string \<times> jsval) list"

definition getProp :: "(string \<times> jsval) list \<Rightarrow> string \<Rightarrow> jsval" where
  "getProp fs k = (case map_of fs k of None \<Rightarrow> JUndefined | Some v \<Rightarrow> v)"

section \<open>packages/shared/src/cli/install-hint.ts\<close>

definition PROJECT_REPO :: string where
  "PROJECT_REPO = ''https://github.com/BytePioneer-AI/moltbot-china''"

definition INSTALL_SETUP_COMMAND :: string where
  "INSTALL_SETUP_COMMAND = ''openclaw china setup''"

definition START_GATEWAY_COMMAND :: string where
  "START_GATEWAY_COMMAND = ''openclaw gateway --port 18789 --verbose''"

definition ANSI_RESET :: string where
  "ANSI_RESET = CHR 0x1B # ''[0m''"

definition ANSI_BOLD :: string where
  "ANSI_BOLD = CHR 0x1B # ''[1m''"

definition ANSI_LINK :: string where
  "ANSI_LINK = CHR 0x1B # ''[1;4;96m''"

definition ANSI_BORDER :: string where
  "ANSI_BORDER = CHR 0x1B # ''[92m''"

definition SUPPORTED_CHANNELS :: "string list" where
  "SUPPORTED_CHANNELS = [''dingtalk'', ''feishu-china'', ''wecom'', ''wecom-app'', ''qqbot'']"

text \<open>\<^verbatim>\<open>typeof value === "object" && value !== null && !Array.isArray(value)\<close>\<close>

fun isRecord :: "jsval \<Rightarrow> bool" where
  "isRecord (JObj fs) = True"
| "isRecord v = False"

definition channelEnabled :: "(string \<times> jsval) list \<Rightarrow> string \<Rightarrow> bool" where
  "channelEnabled channels channelId =
     (case getProp channels channelId of
        JObj channelConfig \<Rightarrow> getProp channelConfig ''enabled'' = JBool True
      | _ \<Rightarrow> False)"

definition hasAnyEnabledChinaChannel :: "jsval \<Rightarrow> bool" where
  "hasAnyEnabledChinaChannel cfg =
     (case cfg of
        JObj fs \<Rightarrow>
          (case getProp fs ''channels'' of
             JObj channels \<Rightarrow> list_ex (channelEnabled channels) SUPPORTED_CHANNELS
           | _ \<Rightarrow> False)
      | _ \<Rightarrow> False)"

text \<open>
  The process-wide flag \<^verbatim>\<open>globalThis[CHINA_INSTALL_HINT_SHOWN_KEY]\<close> is the only state of
  the module; it is passed in and returned.  A logger is known by which of its two
  optional methods it has; calling one is recorded as an event.
\<close>

record logger_like =
  has_info :: bool
  has_warn :: bool

record hint_api =
  logger :: "logger_like option"
  config :: jsval

datatype log_event = LogInfo string | LogWarn string

definition hasShownInstallHint :: "bool \<Rightarrow> bool" where
  "hasShownInstallHint root = (root = True)"

definition markInstallHintShown :: "bool \<Rightarrow> bool" where
  "markInstallHintShown root = True"

definition border_line :: string where
  "border_line = ANSI_BORDER @ concat (replicate 52 [CHR 0xE2, CHR 0x94, CHR 0x81]) @ ANSI_RESET"

definition hint_lines :: "string list" where
  "hint_lines =
     [ border_line,
       ''  OpenClaw China Channels '' @ [CHR 0xE5, CHR 0xB7, CHR 0xB2, CHR 0xE5, CHR 0xB0, CHR 0xB1,
          CHR 0xE7, CHR 0xBB, CHR 0xAA] @ ''!'',
       border_line,
       [],
       [CHR 0xE9, CHR 0xA1, CHR 0xB9, CHR 0xE7, CHR 0x9B, CHR 0xAE, CHR 0xE4, CHR 0xBB, CHR 0x93,
          CHR 0xE5, CHR 0xBA, CHR 0x93] @ '':'',
       ''  '' @ ANSI_LINK @ PROJECT_REPO @ ANSI_RESET,
       [],
       [CHR 0xE2, CHR 0xAD, CHR 0x90] @ '' '' @ [CHR 0xE5, CHR 0xA6, CHR 0x82, CHR 0xE6, CHR 0x9E,
          CHR 0x9C, CHR 0xE8, CHR 0xBF, CHR 0x99, CHR 0xE4, CHR 0xB8, CHR 0xAA, CHR 0xE9, CHR 0xA1,
          CHR 0xB9, CHR 0xE7, CHR 0x9B, CHR 0xAE, CHR 0xE5, CHR 0xAF, CHR 0xB9, CHR 0xE4, CHR 0xBD,
          CHR 0xA0, CHR 0xE6, CHR 0x9C, CHR 0x89, CHR 0xE5, CHR 0xB8, CHR 0xAE, CHR 0xE5, CHR 0x8A,
          CHR 0xA9, CHR 0xEF, CHR 0xBC, CHR 0x8C, CHR 0xE8, CHR 0xAF, CHR 0xB7, CHR 0xE7, CHR 0xBB,
          CHR 0x99, CHR 0xE6, CHR 0x88, CHR 0x91, CHR 0xE4, CHR 0xBB, CHR 0xAC, CHR 0xE4, CHR 0xB8,
          CHR 0x80, CHR 0xE4, CHR 0xB8, CHR 0xAA] @ '' Star'' @ [CHR 0xEF, CHR 0xBC, CHR 0x81,
          CHR 0xE2, CHR 0xAD, CHR 0x90],
       [],
       [CHR 0xE4, CHR 0xB8, CHR 0x8B, CHR 0xE4, CHR 0xB8, CHR 0x80, CHR 0xE6, CHR 0xAD, CHR 0xA5,
          CHR 0xEF, CHR 0xBC, CHR 0x88, CHR 0xE9, CHR 0x85, CHR 0x8D, CHR 0xE7, CHR 0xBD, CHR 0xAE,
          CHR 0xE5, CHR 0xBC, CHR 0x95, CHR 0xE5, CHR 0xAF, CHR 0xBC, CHR 0xEF, CHR 0xBC, CHR 0x89]
          @ '':'',
       ''  1. '' @ [CHR 0xE8, CHR 0xBF, CHR 0x90, CHR 0xE8, CHR 0xA1, CHR 0x8C, CHR 0xE4, CHR 0xBA,
          CHR 0xA4, CHR 0xE4, CHR 0xBA, CHR 0x92, CHR 0xE5, CHR 0xBC, CHR 0x8F, CHR 0xE9, CHR 0x85,
          CHR 0x8D, CHR 0xE7, CHR 0xBD, CHR 0xAE, CHR 0xE5, CHR 0x90, CHR 0x91, CHR 0xE5, CHR 0xAF,
          CHR 0xBC],
       ''     '' @ ANSI_BOLD @ INSTALL_SETUP_COMMAND @ ANSI_RESET,
       ''  2. '' @ [CHR 0xE6, CHR 0x8C, CHR 0x89, CHR 0xE6, CHR 0x8F, CHR 0x90, CHR 0xE7, CHR 0xA4,
          CHR 0xBA, CHR 0xE5, CHR 0xA1, CHR 0xAB, CHR 0xE5, CHR 0x86, CHR 0x99, CHR 0xE6, CHR 0xB8,
          CHR 0xA0, CHR 0xE9, CHR 0x81, CHR 0x93, CHR 0xE5, CHR 0x87, CHR 0xAD, CHR 0xE6, CHR 0x8D,
          CHR 0xAE, CHR 0xE5, CHR 0xB9, CHR 0xB6, CHR 0xE4, CHR 0xBF, CHR 0x9D, CHR 0xE5, CHR 0xAD,
          CHR 0x98, CHR 0xE9, CHR 0x85, CHR 0x8D, CHR 0xE7, CHR 0xBD, CHR 0xAE],
       ''  3. '' @ [CHR 0xE5, CHR 0x90, CHR 0xAF, CHR 0xE5, CHR 0x8A, CHR 0xA8, CHR 0xE7, CHR 0xBD,
          CHR 0x91, CHR 0xE5, CHR 0x85, CHR 0xB3, CHR 0xE5, CHR 0xB9, CHR 0xB6, CHR 0xE8, CHR 0xA7,
          CHR 0x82, CHR 0xE5, CHR 0xAF, CHR 0x9F, CHR 0xE6, CHR 0x97, CHR 0xA5, CHR 0xE5, CHR 0xBF,
          CHR 0x97],
       ''     '' @ START_GATEWAY_COMMAND ]"

text \<open>
  \<^verbatim>\<open>showChinaInstallHint(api)\<close>: the events it logs and the flag afterwards.
  \<^verbatim>\<open>api.logger?.info\<close> is tried first, then \<^verbatim>\<open>api.logger?.warn\<close>; with neither the
  flag is set all the same and nothing is logged.
\<close>

definition showChinaInstallHint :: "hint_api \<Rightarrow> bool \<Rightarrow> log_event list \<times> bool" where
  "showChinaInstallHint api root =
     (if hasShownInstallHint root \<or> hasAnyEnabledChinaChannel (config api) then ([], root)
      else
        let root' = markInstallHintShown root in
        (case logger api of
           None \<Rightarrow> ([], root')
         | Some lg \<Rightarrow>
             if has_info lg then (map LogInfo hint_lines, root')
             else if has_warn lg then (map LogWarn hint_lines, root')
             else ([], root')))"

text \<open>A process makes any number of calls, one after the other, on the same flag.\<close>

fun run_hints :: "hint_api list \<Rightarrow> bool \<Rightarrow> log_event list list \<times> bool" where
  "run_hints [] root = ([], root)"
| "run_hints (api # apis) root =
     (let (out, root') = showChinaInstallHint api root;
          (outs, root'') = run_hints apis root'
      in (out # outs, root''))"


section \<open>Strings and thrown errors\<close>

text \<open>
  \<^verbatim>\<open>String.prototype.startsWith\<close> and \<^verbatim>\<open>slice(n)\<close>.
\<close>

definition startsWith :: "string \<Rightarrow> string \<Rightarrow> bool" where
  "startsWith v p = (take (length p) v = p)"

definition slice_from :: "nat \<Rightarrow> string \<Rightarrow> string" where
  "slice_from n v = drop n v"

text \<open>
  \<^verbatim>\<open>String.prototype.trim\<close> removes white space and line terminators from both ends.
  These are, as ECMAScript lists them: U+0009 to U+000D, U+0020, U+00A0, U+1680,
  U+2000 to U+200A, U+2028, U+2029, U+202F, U+205F, U+3000 and U+FEFF; each stands
  here as the bytes of its UTF-8 encoding.
\<close>

definition js_whitespace :: "string list" where
  "js_whitespace =
     [[CHR 0x09], [CHR 0x0A], [CHR 0x0B], [CHR 0x0C], [CHR 0x0D], [CHR 0x20],
      [CHR 0xC2, CHR 0xA0], [CHR 0xE1, CHR 0x9A, CHR 0x80], [CHR 0xE2, CHR 0x80, CHR 0x80],
      [CHR 0xE2, CHR 0x80, CHR 0x81], [CHR 0xE2, CHR 0x80, CHR 0x82],
      [CHR 0xE2, CHR 0x80, CHR 0x83], [CHR 0xE2, CHR 0x80, CHR 0x84],
      [CHR 0xE2, CHR 0x80, CHR 0x85], [CHR 0xE2, CHR 0x80, CHR 0x86],
      [CHR 0xE2, CHR 0x80, CHR 0x87], [CHR 0xE2, CHR 0x80, CHR 0x88],
      [CHR 0xE2, CHR 0x80, CHR 0x89], [CHR 0xE2, CHR 0x80, CHR 0x8A],
      [CHR 0xE2, CHR 0x80, CHR 0xA8], [CHR 0xE2, CHR 0x80, CHR 0xA9],
      [CHR 0xE2, CHR 0x80, CHR 0xAF], [CHR 0xE2, CHR 0x81, CHR 0x9F],
      [CHR 0xE3, CHR 0x80, CHR 0x80], [CHR 0xEF, CHR 0xBB, CHR 0xBF]]"

text \<open>Removing, as long as there is one, a leading member of a list of strings.\<close>

function strip_start :: "string list \<Rightarrow> string \<Rightarrow> string" where
  "strip_start ws v =
     (case find (\<lambda>w. w \<noteq> [] \<and> startsWith v w) ws of
        None \<Rightarrow> v
      | Some w \<Rightarrow> strip_start ws (drop (length w) v))"
  by pat_completeness auto
termination
proof (relation "measure (\<lambda>(ws, v). length v)")
  show "wf (measure (\<lambda>(ws, v). length v))"
    by simp
next
  fix ws :: "string list" and v w :: string
  assume "find (\<lambda>w. w \<noteq> [] \<and> startsWith v w) ws = Some w"
  then have "w \<noteq> []" and "take (length w) v = w"
    by (auto simp: find_Some_iff startsWith_def)
  then have "0 < length w" and "length w \<le> length v"
    by (auto simp: min_def dest: arg_cong [where f = length] split: if_splits)
  then have "length (drop (length w) v) < length v"
    by (simp del: length_greater_0_conv)
  then show "((ws, drop (length w) v), (ws, v)) \<in> measure (\<lambda>(ws, v). length v)"
    by simp
qed

declare strip_start.simps [simp del]

definition js_trim :: "string \<Rightarrow> string" where
  "js_trim v = rev (strip_start (map rev js_whitespace) (rev (strip_start js_whitespace v)))"

text \<open>
  A thrown value: an \<^verbatim>\<open>Error\<close> with its message (one whose \<^verbatim>\<open>name\<close> is
  \<^verbatim>\<open>"AbortError"\<close> apart), or any other value, kept as what \<^verbatim>\<open>String(err)\<close> gives.  A function that can throw returns \<open>js_exn + 'a\<close>.
\<close>

datatype js_exn = JsError string | JsAbortError string | JsThrown string

fun exn_message :: "js_exn \<Rightarrow> string" where
  "exn_message (JsError m) = m"
| "exn_message (JsAbortError m) = m"
| "exn_message (JsThrown v) = v"

text \<open>Decimal digits of a number, as a template literal prints it.\<close>

definition digit_char :: "nat \<Rightarrow> char" where
  "digit_char d = ''0123456789'' ! d"

fun show_nat :: "nat \<Rightarrow> string" where
  "show_nat n =
     (if n < 10 then [digit_char n] else show_nat (n div 10) @ [digit_char (n mod 10)])"

declare show_nat.simps [simp del]

text \<open>Truthiness of an optional string: \<^verbatim>\<open>undefined\<close> and \<^verbatim>\<open>""\<close> are falsy.\<close>

fun truthy :: "string option \<Rightarrow> bool" where
  "truthy None = False"
| "truthy (Some v) = (v \<noteq> [])"

section \<open>extensions/qqbot/src/outbound.ts\<close>

record QQBotConfig =
  qq_appId :: "string option"
  qq_clientSecret :: "string option"
  qq_markdownSupport :: "bool option"

record qq_channels =
  qqbot :: "QQBotConfig option"

record qq_OutboundConfig =
  qq_cfg_channels :: "qq_channels option"

record QQBotSendResult =
  qq_channel :: string
  qq_messageId :: "string option"
  qq_timestamp :: "string option"
  qq_error :: "string option"

datatype TargetKind = C2C | Group | Channel

datatype MediaFileType = IMAGE | VIDEO | VOICE | FILE

definition stripPrefix :: "string \<Rightarrow> string \<Rightarrow> string" where
  "stripPrefix v p = (if startsWith v p then slice_from (length p) v else v)"

definition qq_parseTarget :: "string \<Rightarrow> TargetKind \<times> string" where
  "qq_parseTarget to =
     (let raw = stripPrefix (js_trim to) ''qqbot:'' in
      if startsWith raw ''group:'' then (Group, slice_from (length ''group:'') raw)
      else if startsWith raw ''channel:'' then (Channel, slice_from (length ''channel:'') raw)
      else if startsWith raw ''user:'' then (C2C, slice_from (length ''user:'') raw)
      else if startsWith raw ''c2c:'' then (C2C, slice_from (length ''c2c:'') raw)
      else (C2C, raw))"

definition isHttpUrl :: "string \<Rightarrow> bool" where
  "isHttpUrl v = (startsWith v ''http://'' \<or> startsWith v ''https://'')"

definition is_ascii_letter :: "char \<Rightarrow> bool" where
  "is_ascii_letter c =
     ((of_char c :: nat) \<in> {of_char CHR ''a'' .. of_char CHR ''z''} \<or>
      (of_char c :: nat) \<in> {of_char CHR ''A'' .. of_char CHR ''Z''})"

text \<open>The last disjunct is the regular expression \<^verbatim>\<open>/^[a-zA-Z]:[\\/]/\<close>.\<close>

definition isLocalPath :: "string \<Rightarrow> bool" where
  "isLocalPath v =
     (startsWith v ''/'' \<or> startsWith v ''./'' \<or> startsWith v ''../'' \<or>
      (case v of
         c # d # e # _ \<Rightarrow> is_ascii_letter c \<and> d = CHR '':'' \<and> (e = CHR 0x5C \<or> e = CHR ''/'')
       | _ \<Rightarrow> False))"

text \<open>
  Everything the adapter reaches outside itself: the QQ Bot REST client
  (\<^verbatim>\<open>client.js\<close>), the configuration schema (\<^verbatim>\<open>config.js\<close>), the media type
  detection of the shared package, the file system, \<^verbatim>\<open>fetch\<close>, \<^verbatim>\<open>path.basename\<close>, the
  \<^verbatim>\<open>URL\<close> parser and the base64 encoder.  None of them is in the adapter's file; the
  environment says what each call answers (\<open>Inl\<close>: it throws or rejects), and every
  call that leaves the process is recorded in a trace.
\<close>

datatype qq_call =
    CallGetAccessToken string string
  | CallSendGroupMessage string string string "string option" bool
  | CallSendChannelMessage string string string "string option"
  | CallSendC2CMessage string string string "string option" bool
  | CallExistsSync string
  | CallReadFileSync string
  | CallFetch string
  | CallUploadGroupMedia string string MediaFileType string
  | CallSendGroupMediaMessage string string string
  | CallUploadC2CMedia string string MediaFileType string
  | CallSendC2CMediaMessage string string string

datatype fetch_response =
  FetchResponse (resp_ok: bool) (resp_status: nat) (resp_body: "js_exn + 8 word list")

record qq_env =
  safeParse :: "QQBotConfig \<Rightarrow> QQBotConfig option"
  getAccessToken :: "string \<Rightarrow> string \<Rightarrow> js_exn + string"
  sendGroupMessage :: "string \<Rightarrow> string \<Rightarrow> string \<Rightarrow> string option \<Rightarrow> bool \<Rightarrow> js_exn + string \<times> string"
  sendChannelMessage :: "string \<Rightarrow> string \<Rightarrow> string \<Rightarrow> string option \<Rightarrow> js_exn + string \<times> string"
  sendC2CMessage :: "string \<Rightarrow> string \<Rightarrow> string \<Rightarrow> string option \<Rightarrow> bool \<Rightarrow> js_exn + string \<times> string"
  uploadGroupMedia :: "string \<Rightarrow> string \<Rightarrow> MediaFileType \<Rightarrow> string \<Rightarrow> js_exn + string"
  sendGroupMediaMessage :: "string \<Rightarrow> string \<Rightarrow> string \<Rightarrow> js_exn + string \<times> string"
  uploadC2CMedia :: "string \<Rightarrow> string \<Rightarrow> MediaFileType \<Rightarrow> string \<Rightarrow> js_exn + string"
  sendC2CMediaMessage :: "string \<Rightarrow> string \<Rightarrow> string \<Rightarrow> js_exn + string \<times> string"
  detectMediaType :: "string \<Rightarrow> string"
  existsSync :: "string \<Rightarrow> bool"
  readFileSync :: "string \<Rightarrow> js_exn + 8 word list"
  fetch :: "string \<Rightarrow> js_exn + fetch_response"
  path_basename :: "string \<Rightarrow> string"
  url_pathname :: "string \<Rightarrow> string"
  toBase64 :: "8 word list \<Rightarrow> string"

definition resolveMediaFileType :: "qq_env \<Rightarrow> string \<Rightarrow> string option \<Rightarrow> MediaFileType" where
  "resolveMediaFileType env mediaUrl fileName =
     (let type = detectMediaType env (case fileName of Some f \<Rightarrow> f | None \<Rightarrow> mediaUrl) in
      if type = ''image'' then IMAGE
      else if type = ''video'' then VIDEO
      else if type = ''audio'' then VOICE
      else FILE)"

definition or_file :: "string \<Rightarrow> string" where
  "or_file n = (if n = [] then ''file'' else n)"

definition loadMediaBuffer ::
  "qq_env \<Rightarrow> string \<Rightarrow> qq_call list \<times> (js_exn + 8 word list \<times> string)" where
  "loadMediaBuffer env mediaUrl =
     (if isLocalPath mediaUrl then
        (if \<not> existsSync env mediaUrl then
           ([CallExistsSync mediaUrl], Inl (JsError (''Local file not found: '' @ mediaUrl)))
         else
           (case readFileSync env mediaUrl of
              Inl e \<Rightarrow> ([CallExistsSync mediaUrl, CallReadFileSync mediaUrl], Inl e)
            | Inr buffer \<Rightarrow>
                ([CallExistsSync mediaUrl, CallReadFileSync mediaUrl],
                 Inr (buffer, or_file (path_basename env mediaUrl)))))
      else if \<not> isHttpUrl mediaUrl then
        ([], Inl (JsError (''Unsupported mediaUrl: '' @ mediaUrl)))
      else
        (case fetch env mediaUrl of
           Inl e \<Rightarrow> ([CallFetch mediaUrl], Inl e)
         | Inr response \<Rightarrow>
             if \<not> resp_ok response then
               ([CallFetch mediaUrl],
                Inl (JsError (''Failed to fetch media: HTTP '' @ show_nat (resp_status response))))
             else
               (case resp_body response of
                  Inl e \<Rightarrow> ([CallFetch mediaUrl], Inl e)
                | Inr buffer \<Rightarrow>
                    ([CallFetch mediaUrl],
                     Inr (buffer, or_file (path_basename env (url_pathname env mediaUrl)))))))"

definition qq_error_result :: "string \<Rightarrow> QQBotSendResult" where
  "qq_error_result msg =
     \<lparr> qq_channel = ''qqbot'', qq_messageId = None, qq_timestamp = None, qq_error = Some msg \<rparr>"

definition qq_sent_result :: "string \<times> string \<Rightarrow> QQBotSendResult" where
  "qq_sent_result r =
     \<lparr> qq_channel = ''qqbot'', qq_messageId = Some (fst r), qq_timestamp = Some (snd r),
       qq_error = None \<rparr>"

text \<open>
  \<^verbatim>\<open>cfg.channels?.qqbot\<close>, then the schema: the parsed data when parsing succeeds, the
  raw object otherwise.
\<close>

definition qq_rawCfg :: "qq_OutboundConfig \<Rightarrow> QQBotConfig option" where
  "qq_rawCfg cfg = (case qq_cfg_channels cfg of None \<Rightarrow> None | Some ch \<Rightarrow> qqbot ch)"

definition qq_effectiveCfg :: "qq_env \<Rightarrow> qq_OutboundConfig \<Rightarrow> QQBotConfig option" where
  "qq_effectiveCfg env cfg =
     (case qq_rawCfg cfg of
        None \<Rightarrow> None
      | Some rawCfg \<Rightarrow>
          (case safeParse env rawCfg of Some parsed_data \<Rightarrow> Some parsed_data | None \<Rightarrow> Some rawCfg))"

text \<open>
  The part of \<^verbatim>\<open>sendText\<close> inside \<^verbatim>\<open>try\<close>: a client call that rejects becomes an
  error result.
\<close>

definition qq_sendText_try ::
  "qq_env \<Rightarrow> TargetKind \<times> string \<Rightarrow> string \<Rightarrow> string \<Rightarrow> string option \<Rightarrow> bool \<Rightarrow>
   qq_call list \<times> QQBotSendResult" where
  "qq_sendText_try env target accessToken text replyToId markdown =
     (let caught = (\<lambda>r. case r of Inl e \<Rightarrow> qq_error_result (exn_message e)
                                 | Inr sent \<Rightarrow> qq_sent_result sent) in
      case fst target of
        Group \<Rightarrow>
          ([CallSendGroupMessage accessToken (snd target) text replyToId markdown],
           caught (sendGroupMessage env accessToken (snd target) text replyToId markdown))
      | Channel \<Rightarrow>
          ([CallSendChannelMessage accessToken (snd target) text replyToId],
           caught (sendChannelMessage env accessToken (snd target) text replyToId))
      | C2C \<Rightarrow>
          ([CallSendC2CMessage accessToken (snd target) text replyToId markdown],
           caught (sendC2CMessage env accessToken (snd target) text replyToId markdown)))"

text \<open>
  \<^verbatim>\<open>qqbotOutbound.sendText\<close>.  \<^verbatim>\<open>getAccessToken\<close> is awaited before the \<^verbatim>\<open>try\<close>, so
  its rejection rejects the whole call (\<open>Inl\<close>).
\<close>

definition qq_sendText ::
  "qq_env \<Rightarrow> qq_OutboundConfig \<Rightarrow> string \<Rightarrow> string \<Rightarrow> string option \<Rightarrow>
   qq_call list \<times> (js_exn + QQBotSendResult)" where
  "qq_sendText env cfg to text replyToId =
     (case qq_effectiveCfg env cfg of
        None \<Rightarrow> ([], Inr (qq_error_result ''QQBot channel not configured''))
      | Some qqCfg \<Rightarrow>
          if \<not> truthy (qq_appId qqCfg) \<or> \<not> truthy (qq_clientSecret qqCfg) then
            ([], Inr (qq_error_result ''QQBot not configured (missing appId/clientSecret)''))
          else
            let target = qq_parseTarget to;
                appId = the (qq_appId qqCfg);
                clientSecret = the (qq_clientSecret qqCfg)
            in
            (case getAccessToken env appId clientSecret of
               Inl e \<Rightarrow> ([CallGetAccessToken appId clientSecret], Inl e)
             | Inr accessToken \<Rightarrow>
                 let markdown = (case qq_markdownSupport qqCfg of Some m \<Rightarrow> m | None \<Rightarrow> False);
                     (calls, result) = qq_sendText_try env target accessToken text replyToId markdown
                 in (CallGetAccessToken appId clientSecret # calls, Inr result)))"

text \<open>The part of \<^verbatim>\<open>sendMedia\<close> inside \<^verbatim>\<open>try\<close>; every throw in it is caught.\<close>

definition qq_sendMedia_try ::
  "qq_env \<Rightarrow> QQBotConfig \<Rightarrow> TargetKind \<times> string \<Rightarrow> string \<Rightarrow> qq_call list \<times> QQBotSendResult" where
  "qq_sendMedia_try env qqCfg target mediaUrl =
     (let failed = (\<lambda>e. qq_error_result (exn_message e));
          appId = the (qq_appId qqCfg);
          clientSecret = the (qq_clientSecret qqCfg);
          (c1, loaded) = loadMediaBuffer env mediaUrl
      in
      case loaded of
        Inl e \<Rightarrow> (c1, failed e)
      | Inr (buffer, fileName) \<Rightarrow>
          let fileType = resolveMediaFileType env mediaUrl (Some fileName);
              base64Data = toBase64 env buffer;
              c2 = c1 @ [CallGetAccessToken appId clientSecret]
          in
          (case getAccessToken env appId clientSecret of
             Inl e \<Rightarrow> (c2, failed e)
           | Inr accessToken \<Rightarrow>
               if fst target = Group then
                 (let c3 = c2 @ [CallUploadGroupMedia accessToken (snd target) fileType base64Data] in
                  case uploadGroupMedia env accessToken (snd target) fileType base64Data of
                    Inl e \<Rightarrow> (c3, failed e)
                  | Inr file_info \<Rightarrow>
                      (c3 @ [CallSendGroupMediaMessage accessToken (snd target) file_info],
                       case sendGroupMediaMessage env accessToken (snd target) file_info of
                         Inl e \<Rightarrow> failed e
                       | Inr sent \<Rightarrow> qq_sent_result sent))
               else
                 (let c3 = c2 @ [CallUploadC2CMedia accessToken (snd target) fileType base64Data] in
                  case uploadC2CMedia env accessToken (snd target) fileType base64Data of
                    Inl e \<Rightarrow> (c3, failed e)
                  | Inr file_info \<Rightarrow>
                      (c3 @ [CallSendC2CMediaMessage accessToken (snd target) file_info],
                       case sendC2CMediaMessage env accessToken (snd target) file_info of
                         Inl e \<Rightarrow> failed e
                       | Inr sent \<Rightarrow> qq_sent_result sent))))"

text \<open>
  \<^verbatim>\<open>qqbotOutbound.sendMedia\<close>.  \<^verbatim>\<open>text?.trim() ?? ""\<close> is the trimmed text, or the empty
  string without a text.
\<close>

definition qq_sendMedia ::
  "qq_env \<Rightarrow> qq_OutboundConfig \<Rightarrow> string \<Rightarrow> string option \<Rightarrow> string option \<Rightarrow>
   qq_call list \<times> (js_exn + QQBotSendResult)" where
  "qq_sendMedia env cfg to text mediaUrl =
     (if \<not> truthy mediaUrl then
        (let fallbackText = (case text of Some t \<Rightarrow> js_trim t | None \<Rightarrow> []) in
         if fallbackText = [] then
           ([], Inr (qq_error_result ''mediaUrl is required for sendMedia''))
         else qq_sendText env cfg to fallbackText None)
      else
        (case qq_effectiveCfg env cfg of
           None \<Rightarrow> ([], Inr (qq_error_result ''QQBot channel not configured''))
         | Some qqCfg \<Rightarrow>
             if \<not> truthy (qq_appId qqCfg) \<or> \<not> truthy (qq_clientSecret qqCfg) then
               ([], Inr (qq_error_result ''QQBot not configured (missing appId/clientSecret)''))
             else
               let target = qq_parseTarget to; url = the mediaUrl in
               if fst target = Channel then
                 (let fallbackText =
                        (if truthy (map_option js_trim text) then the text @ [CHR 0x0A] @ url
                         else url)
                  in qq_sendText env cfg to fallbackText None)
               else
                 (let (calls, result) = qq_sendMedia_try env qqCfg target url
                  in (calls, Inr result))))"


section \<open>extensions/dingtalk/src/send.ts\<close>

record DingtalkConfig =
  dt_clientId :: "string option"
  dt_clientSecret :: "string option"

record DingtalkSendResult =
  dr_messageId :: jsval
  dr_conversationId :: string

datatype chat_type = Direct | GroupChat

definition DINGTALK_API_BASE :: string where
  "DINGTALK_API_BASE = ''https://api.dingtalk.com''"

definition REQUEST_TIMEOUT :: nat where
  "REQUEST_TIMEOUT = 30000"

text \<open>
  What leaves the process, in order: the token request, the two POST requests (URL,
  access token, robot code, receiver, text), the media send of \<^verbatim>\<open>media.js\<close>, and
  \<^verbatim>\<open>console.error\<close> with its two arguments.
\<close>

datatype dt_event =
    DtGetAccessToken string string
  | DtPost string string string string string
  | DtSendMedia DingtalkConfig string string chat_type
  | DtConsoleError string js_exn

datatype dt_response =
  DtResponse (dt_ok: bool) (dt_status: nat) (dt_body: "js_exn + string")

text \<open>
  The environment: \<^verbatim>\<open>getAccessToken\<close> of \<^verbatim>\<open>client.js\<close>; \<^verbatim>\<open>fetch\<close> (a request that is
  aborted by the timeout rejects with an \<^verbatim>\<open>AbortError\<close>; reading the body of a response
  can reject as well); \<^verbatim>\<open>sendMediaDingtalk\<close> of \<^verbatim>\<open>media.js\<close>; \<^verbatim>\<open>JSON.parse\<close>; the engine's
  conversion of a number, an array or an object to a string, and its comparison of a
  string, an array or an object with zero, both of which can throw; the \<^verbatim>\<open>TypeError\<close>
  the engine throws when a property of \<^verbatim>\<open>null\<close> is read or a value that is not a
  function is called; and the reading of \<^verbatim>\<open>Date.now()\<close>.
\<close>

record dt_env =
  dt_getAccessToken :: "string \<Rightarrow> string \<Rightarrow> js_exn + string"
  dt_fetch :: "string \<Rightarrow> string \<Rightarrow> string \<Rightarrow> string \<Rightarrow> string \<Rightarrow> js_exn + dt_response"
  sendMediaDingtalk :: "DingtalkConfig \<Rightarrow> string \<Rightarrow> string \<Rightarrow> chat_type \<Rightarrow> js_exn + DingtalkSendResult"
  json_parse :: "string \<Rightarrow> js_exn + jsval"
  to_string :: "jsval \<Rightarrow> js_exn + string"
  above_zero :: "jsval \<Rightarrow> js_exn + bool"
  type_error :: js_exn
  date_now :: nat

fun js_truthy :: "jsval \<Rightarrow> bool" where
  "js_truthy JUndefined = False"
| "js_truthy JNull = False"
| "js_truthy (JBool b) = b"
| "js_truthy (JNum n) = (n \<noteq> 0)"
| "js_truthy (JStr v) = (v \<noteq> [])"
| "js_truthy (JArr xs) = True"
| "js_truthy (JObj fs) = True"

text \<open>\<^verbatim>\<open>String(v)\<close>, as a template literal applies it.\<close>

fun js_String :: "dt_env \<Rightarrow> jsval \<Rightarrow> js_exn + string" where
  "js_String env JUndefined = Inr ''undefined''"
| "js_String env JNull = Inr ''null''"
| "js_String env (JBool b) = Inr (if b then ''true'' else ''false'')"
| "js_String env (JStr v) = Inr v"
| "js_String env v = to_string env v"

text \<open>\<^verbatim>\<open>v > 0\<close>\<close>

fun js_above_zero :: "dt_env \<Rightarrow> jsval \<Rightarrow> js_exn + bool" where
  "js_above_zero env JUndefined = Inr False"
| "js_above_zero env JNull = Inr False"
| "js_above_zero env (JBool b) = Inr b"
| "js_above_zero env (JNum n) = Inr (0 < n)"
| "js_above_zero env v = above_zero env v"

text \<open>\<^verbatim>\<open>v.length > 0\<close> for a value \<open>v\<close> that is neither \<^verbatim>\<open>undefined\<close> nor \<^verbatim>\<open>null\<close>.\<close>

fun js_length_above_zero :: "dt_env \<Rightarrow> jsval \<Rightarrow> js_exn + bool" where
  "js_length_above_zero env (JArr xs) = Inr (xs \<noteq> [])"
| "js_length_above_zero env (JStr v) = Inr (v \<noteq> [])"
| "js_length_above_zero env (JObj fs) = js_above_zero env (getProp fs ''length'')"
| "js_length_above_zero env v = Inr False"

fun join_with :: "string \<Rightarrow> string list \<Rightarrow> string" where
  "join_with sep [] = []"
| "join_with sep [x] = x"
| "join_with sep (x # y # ys) = x @ sep @ join_with sep (y # ys)"

text \<open>
  \<^verbatim>\<open>Array.prototype.join\<close>: an element that is \<^verbatim>\<open>undefined\<close> or \<^verbatim>\<open>null\<close> gives the empty
  string, any other its \<^verbatim>\<open>String\<close>; the first conversion that throws ends the join.
\<close>

fun js_join_parts :: "dt_env \<Rightarrow> jsval list \<Rightarrow> js_exn + string list" where
  "js_join_parts env [] = Inr []"
| "js_join_parts env (x # xs) =
     (case (if x = JUndefined \<or> x = JNull then Inr [] else js_String env x) of
        Inl err \<Rightarrow> Inl err
      | Inr part \<Rightarrow>
          (case js_join_parts env xs of
             Inl err \<Rightarrow> Inl err
           | Inr parts \<Rightarrow> Inr (part # parts)))"

definition js_join :: "dt_env \<Rightarrow> string \<Rightarrow> jsval list \<Rightarrow> js_exn + string" where
  "js_join env sep xs = map_sum id (join_with sep) (js_join_parts env xs)"

text \<open>
  The message of the error thrown for a response that is not \<^verbatim>\<open>ok\<close>, from its status
  and the text of its body.  \<open>what\<close> is \<^verbatim>\<open>direct\<close> or \<^verbatim>\<open>group\<close>.  Whatever is thrown
  while the body is parsed and its \<^verbatim>\<open>message\<close> and \<^verbatim>\<open>code\<close> are read and printed (also
  the \<^verbatim>\<open>TypeError\<close> of reading a property of \<^verbatim>\<open>null\<close>) is caught, and the raw body is
  appended instead.
\<close>

definition dt_http_error :: "dt_env \<Rightarrow> string \<Rightarrow> nat \<Rightarrow> string \<Rightarrow> string" where
  "dt_http_error env what status errorText =
     (let errorMessage = ''DingTalk '' @ what @ '' message send failed: HTTP '' @ show_nat status;
          caught = errorMessage @ '' - '' @ errorText
      in
      case json_parse env errorText of
        Inl e \<Rightarrow> caught
      | Inr JNull \<Rightarrow> caught
      | Inr JUndefined \<Rightarrow> caught
      | Inr (JObj errorData) \<Rightarrow>
          if js_truthy (getProp errorData ''message'') then
            (case js_String env (getProp errorData ''message'') of
               Inl e \<Rightarrow> caught
             | Inr message \<Rightarrow>
                 (case (case getProp errorData ''code'' of
                          JUndefined \<Rightarrow> Inr ''unknown''
                        | JNull \<Rightarrow> Inr ''unknown''
                        | code \<Rightarrow> js_String env code) of
                    Inl e \<Rightarrow> caught
                  | Inr code \<Rightarrow>
                      ''DingTalk '' @ what @ '' message send failed: '' @ message @
                      '' (code: '' @ code @ '')''))
          else errorMessage
      | Inr other \<Rightarrow> errorMessage)"

text \<open>The \<^verbatim>\<open>catch\<close> of both senders: an \<^verbatim>\<open>AbortError\<close> becomes a timeout error.\<close>

definition dt_rethrow :: "string \<Rightarrow> js_exn \<Rightarrow> js_exn" where
  "dt_rethrow what err =
     (case err of
        JsAbortError m \<Rightarrow>
          JsError (''DingTalk '' @ what @ '' message send timed out after '' @
                   show_nat REQUEST_TIMEOUT @ ''ms'')
      | _ \<Rightarrow> err)"

text \<open>
  \<^verbatim>\<open>data.processQueryKey ?? `<prefix>_${Date.now()}`\<close>: the key as it came, whatever
  kind of value it is, unless it is \<^verbatim>\<open>undefined\<close> or \<^verbatim>\<open>null\<close>.
\<close>

definition dt_message_id :: "dt_env \<Rightarrow> string \<Rightarrow> jsval \<Rightarrow> jsval" where
  "dt_message_id env prefix key =
     (case key of
        JUndefined \<Rightarrow> JStr (prefix @ ''_'' @ show_nat (date_now env))
      | JNull \<Rightarrow> JStr (prefix @ ''_'' @ show_nat (date_now env))
      | _ \<Rightarrow> key)"

text \<open>
  The check of \<^verbatim>\<open>data.invalidStaffIdList\<close> in the direct sender, for \<open>data\<close> an object:
  \<open>None\<close> when the list is falsy or its length is not above zero; otherwise what is
  thrown: the error that names the joined ids when the list is an array, and whatever
  the comparison or the join threw, or the \<^verbatim>\<open>TypeError\<close> of calling a \<^verbatim>\<open>join\<close> that is
  not a function, when it is not.
\<close>

definition dt_invalid_staff :: "dt_env \<Rightarrow> jsval \<Rightarrow> js_exn option" where
  "dt_invalid_staff env invalidStaffIdList =
     (if \<not> js_truthy invalidStaffIdList then None
      else
        (case js_length_above_zero env invalidStaffIdList of
           Inl err \<Rightarrow> Some err
         | Inr False \<Rightarrow> None
         | Inr True \<Rightarrow>
             (case invalidStaffIdList of
                JArr ids \<Rightarrow>
                  (case js_join env '', '' ids of
                     Inl err \<Rightarrow> Some err
                   | Inr joined \<Rightarrow>
                       Some (JsError (''DingTalk direct message send failed: invalid user IDs: '' @
                                      joined)))
              | _ \<Rightarrow> Some (type_error env))))"

definition sendDirectMessage ::
  "dt_env \<Rightarrow> DingtalkConfig \<Rightarrow> string \<Rightarrow> string \<Rightarrow> string \<Rightarrow>
   dt_event list \<times> (js_exn + DingtalkSendResult)" where
  "sendDirectMessage env cfg to text accessToken =
     (let url = DINGTALK_API_BASE @ ''/v1.0/robot/oToMessages/batchSend'';
          robotCode = the (dt_clientId cfg);
          events = [DtPost url accessToken robotCode to text]
      in
      (events,
       case dt_fetch env url accessToken robotCode to text of
         Inl err \<Rightarrow> Inl (dt_rethrow ''direct'' err)
       | Inr response \<Rightarrow>
           (case dt_body response of
              Inl err \<Rightarrow> Inl (dt_rethrow ''direct'' err)
            | Inr body \<Rightarrow>
                if \<not> dt_ok response then
                  Inl (JsError (dt_http_error env ''direct'' (dt_status response) body))
                else
                  (case json_parse env body of
                     Inl err \<Rightarrow> Inl (dt_rethrow ''direct'' err)
                   | Inr JNull \<Rightarrow> Inl (dt_rethrow ''direct'' (type_error env))
                   | Inr JUndefined \<Rightarrow> Inl (dt_rethrow ''direct'' (type_error env))
                   | Inr (JObj data) \<Rightarrow>
                       (case dt_invalid_staff env (getProp data ''invalidStaffIdList'') of
                          Some err \<Rightarrow> Inl (dt_rethrow ''direct'' err)
                        | None \<Rightarrow>
                            Inr \<lparr> dr_messageId =
                                    dt_message_id env ''dm'' (getProp data ''processQueryKey''),
                                  dr_conversationId = to \<rparr>)
                   | Inr other \<Rightarrow>
                       Inr \<lparr> dr_messageId = dt_message_id env ''dm'' JUndefined,
                             dr_conversationId = to \<rparr>))))"

definition sendGroupMessage_dt ::
  "dt_env \<Rightarrow> DingtalkConfig \<Rightarrow> string \<Rightarrow> string \<Rightarrow> string \<Rightarrow>
   dt_event list \<times> (js_exn + DingtalkSendResult)" where
  "sendGroupMessage_dt env cfg to text accessToken =
     (let url = DINGTALK_API_BASE @ ''/v1.0/robot/groupMessages/send'';
          robotCode = the (dt_clientId cfg);
          events = [DtPost url accessToken robotCode to text]
      in
      (events,
       case dt_fetch env url accessToken robotCode to text of
         Inl err \<Rightarrow> Inl (dt_rethrow ''group'' err)
       | Inr response \<Rightarrow>
           (case dt_body response of
              Inl err \<Rightarrow> Inl (dt_rethrow ''group'' err)
            | Inr body \<Rightarrow>
                if \<not> dt_ok response then
                  Inl (JsError (dt_http_error env ''group'' (dt_status response) body))
                else
                  (case json_parse env body of
                     Inl err \<Rightarrow> Inl (dt_rethrow ''group'' err)
                   | Inr JNull \<Rightarrow> Inl (dt_rethrow ''group'' (type_error env))
                   | Inr JUndefined \<Rightarrow> Inl (dt_rethrow ''group'' (type_error env))
                   | Inr (JObj data) \<Rightarrow>
                       Inr \<lparr> dr_messageId =
                               dt_message_id env ''gm'' (getProp data ''processQueryKey''),
                             dr_conversationId = to \<rparr>
                   | Inr other \<Rightarrow>
                       Inr \<lparr> dr_messageId = dt_message_id env ''gm'' JUndefined,
                             dr_conversationId = to \<rparr>))))"

definition sendMessageDingtalk ::
  "dt_env \<Rightarrow> DingtalkConfig \<Rightarrow> string \<Rightarrow> string \<Rightarrow> chat_type \<Rightarrow>
   dt_event list \<times> (js_exn + DingtalkSendResult)" where
  "sendMessageDingtalk env cfg to text chatType =
     (if \<not> truthy (dt_clientId cfg) \<or> \<not> truthy (dt_clientSecret cfg) then
        ([], Inl (JsError ''DingTalk credentials not configured (clientId, clientSecret required)''))
      else
        let clientId = the (dt_clientId cfg); clientSecret = the (dt_clientSecret cfg) in
        (case dt_getAccessToken env clientId clientSecret of
           Inl err \<Rightarrow> ([DtGetAccessToken clientId clientSecret], Inl err)
         | Inr accessToken \<Rightarrow>
             let (events, result) =
                   (if chatType = Direct then sendDirectMessage env cfg to text accessToken
                    else sendGroupMessage_dt env cfg to text accessToken)
             in (DtGetAccessToken clientId clientSecret # events, result)))"

section \<open>extensions/dingtalk/src/outbound.ts\<close>

record dt_channels =
  dingtalk :: "DingtalkConfig option"

record dt_OutboundConfig =
  dt_cfg_channels :: "dt_channels option"

record SendResult =
  sr_channel :: string
  sr_messageId :: jsval
  sr_chatId :: "string option"
  sr_conversationId :: "string option"

definition dt_parseTarget :: "string \<Rightarrow> string \<times> chat_type" where
  "dt_parseTarget to =
     (if startsWith to ''chat:'' then (slice_from 5 to, GroupChat)
      else if startsWith to ''user:'' then (slice_from 5 to, Direct)
      else (to, Direct))"

definition dt_send_result :: "DingtalkSendResult \<Rightarrow> SendResult" where
  "dt_send_result result =
     \<lparr> sr_channel = ''dingtalk'', sr_messageId = dr_messageId result,
       sr_chatId = Some (dr_conversationId result),
       sr_conversationId = Some (dr_conversationId result) \<rparr>"

definition dt_cfg :: "dt_OutboundConfig \<Rightarrow> DingtalkConfig option" where
  "dt_cfg cfg = (case dt_cfg_channels cfg of None \<Rightarrow> None | Some ch \<Rightarrow> dingtalk ch)"

definition dt_sendText ::
  "dt_env \<Rightarrow> dt_OutboundConfig \<Rightarrow> string \<Rightarrow> string \<Rightarrow> dt_event list \<times> (js_exn + SendResult)" where
  "dt_sendText env cfg to text =
     (case dt_cfg cfg of
        None \<Rightarrow> ([], Inl (JsError ''DingTalk channel not configured''))
      | Some dingtalkCfg \<Rightarrow>
          let (targetId, chatType) = dt_parseTarget to;
              (events, result) = sendMessageDingtalk env dingtalkCfg targetId text chatType
          in (events, map_sum id dt_send_result result))"

text \<open>The text of the fallback message: a paperclip (U+1F4CE), a space, the URL.\<close>

definition dt_fallbackText :: "string \<Rightarrow> string" where
  "dt_fallbackText mediaUrl = [CHR 0xF0, CHR 0x9F, CHR 0x93, CHR 0x8E] @ '' '' @ mediaUrl"

text \<open>
  The media branch of \<^verbatim>\<open>sendMedia\<close>: the \<^verbatim>\<open>try\<close> around \<^verbatim>\<open>sendMediaDingtalk\<close> and its
  \<^verbatim>\<open>catch\<close>, which logs the error and sends the URL as a text message.
\<close>

definition dt_sendMedia_media ::
  "dt_env \<Rightarrow> DingtalkConfig \<Rightarrow> string \<Rightarrow> chat_type \<Rightarrow> string \<Rightarrow>
   dt_event list \<times> (js_exn + SendResult)" where
  "dt_sendMedia_media env dingtalkCfg targetId chatType mediaUrl =
     (case sendMediaDingtalk env dingtalkCfg targetId mediaUrl chatType of
        Inr result \<Rightarrow>
          ([DtSendMedia dingtalkCfg targetId mediaUrl chatType], Inr (dt_send_result result))
      | Inl err \<Rightarrow>
          let (events, result) =
                sendMessageDingtalk env dingtalkCfg targetId (dt_fallbackText mediaUrl) chatType
          in ([DtSendMedia dingtalkCfg targetId mediaUrl chatType,
               DtConsoleError ''[dingtalk] sendMediaDingtalk failed:'' err] @ events,
              map_sum id dt_send_result result))"

definition dt_sendMedia ::
  "dt_env \<Rightarrow> dt_OutboundConfig \<Rightarrow> string \<Rightarrow> string option \<Rightarrow> string option \<Rightarrow>
   dt_event list \<times> (js_exn + SendResult)" where
  "dt_sendMedia env cfg to text mediaUrl =
     (case dt_cfg cfg of
        None \<Rightarrow> ([], Inl (JsError ''DingTalk channel not configured''))
      | Some dingtalkCfg \<Rightarrow>
          let (targetId, chatType) = dt_parseTarget to;
              has_text = truthy (map_option js_trim text);
              (events1, thrown1) =
                (if has_text then
                   (let (events, sent) =
                          sendMessageDingtalk env dingtalkCfg targetId (the text) chatType
                    in (events, case sent of Inl err \<Rightarrow> Some err | Inr _ \<Rightarrow> None))
                 else ([], None))
          in
          (case thrown1 of
             Some err \<Rightarrow> (events1, Inl err)
           | None \<Rightarrow>
               if truthy mediaUrl then
                 (let (events2, result) =
                        dt_sendMedia_media env dingtalkCfg targetId chatType (the mediaUrl)
                  in (events1 @ events2, result))
               else
                 (events1,
                  Inr \<lparr> sr_channel = ''dingtalk'',
                        sr_messageId =
                          JStr (if has_text then ''text_'' @ show_nat (date_now env) else ''empty''),
                        sr_chatId = Some targetId,
                        sr_conversationId = Some targetId \<rparr>)))"


section \<open>Vocabulary of the properties\<close>

text \<open>
  The three error messages of the QQ Bot adapter, what it means for the adapter to be
  unconfigured (\<^verbatim>\<open>cfg.channels?.qqbot\<close> is absent, or its \<^verbatim>\<open>appId\<close> or \<^verbatim>\<open>clientSecret\<close>
  is missing or empty), and the message that then comes back.
\<close>

definition NOT_CONFIGURED :: string where
  "NOT_CONFIGURED = ''QQBot channel not configured''"

definition MISSING_CREDENTIALS :: string where
  "MISSING_CREDENTIALS = ''QQBot not configured (missing appId/clientSecret)''"

definition MEDIA_URL_REQUIRED :: string where
  "MEDIA_URL_REQUIRED = ''mediaUrl is required for sendMedia''"

definition qq_unconfigured :: "qq_OutboundConfig \<Rightarrow> bool" where
  "qq_unconfigured cfg =
     (case qq_rawCfg cfg of
        None \<Rightarrow> True
      | Some raw \<Rightarrow> \<not> truthy (qq_appId raw) \<or> \<not> truthy (qq_clientSecret raw))"

definition qq_config_error :: "qq_OutboundConfig \<Rightarrow> string" where
  "qq_config_error cfg = (if qq_rawCfg cfg = None then NOT_CONFIGURED else MISSING_CREDENTIALS)"

text \<open>
  The schema of \<^verbatim>\<open>config.js\<close> is a parameter.  What is asked of it: parsing does not
  turn a missing credential into a present one.
\<close>

definition schema_adds_no_credentials :: "qq_env \<Rightarrow> bool" where
  "schema_adds_no_credentials env =
     (\<forall>raw parsed. safeParse env raw = Some parsed \<longrightarrow>
        (truthy (qq_appId parsed) \<longrightarrow> truthy (qq_appId raw)) \<and>
        (truthy (qq_clientSecret parsed) \<longrightarrow> truthy (qq_clientSecret raw)))"

text \<open>Concrete inputs: hint callers, an offline QQ Bot environment, a DingTalk
  environment whose media send fails while its text send succeeds.\<close>

definition api_info :: hint_api where
  "api_info = \<lparr> logger = Some \<lparr> has_info = True, has_warn = False \<rparr>, config = JObj [] \<rparr>"

definition api_wecom :: hint_api where
  "api_wecom =
     \<lparr> logger = Some \<lparr> has_info = True, has_warn = True \<rparr>,
       config = JObj [(''channels'', JObj [(''wecom'', JObj [(''enabled'', JBool True)])])] \<rparr>"

definition qq_offline :: qq_env where
  "qq_offline =
     \<lparr> safeParse = (\<lambda>raw. Some raw),
       getAccessToken = (\<lambda>appId secret. Inl (JsError ''offline'')),
       sendGroupMessage = (\<lambda>token openid content messageId markdown. Inl (JsError ''offline'')),
       sendChannelMessage = (\<lambda>token channel content messageId. Inl (JsError ''offline'')),
       sendC2CMessage = (\<lambda>token openid content messageId markdown. Inl (JsError ''offline'')),
       uploadGroupMedia = (\<lambda>token openid fileType fileData. Inl (JsError ''offline'')),
       sendGroupMediaMessage = (\<lambda>token openid fileInfo. Inl (JsError ''offline'')),
       uploadC2CMedia = (\<lambda>token openid fileType fileData. Inl (JsError ''offline'')),
       sendC2CMediaMessage = (\<lambda>token openid fileInfo. Inl (JsError ''offline'')),
       detectMediaType = (\<lambda>name. ''file''),
       existsSync = (\<lambda>path. False),
       readFileSync = (\<lambda>path. Inl (JsError ''ENOENT'')),
       fetch = (\<lambda>url. Inl (JsError ''offline'')),
       path_basename = (\<lambda>path. path),
       url_pathname = (\<lambda>url. url),
       toBase64 = (\<lambda>buffer. []) \<rparr>"

text \<open>Captions that are white space only: an ideographic space, U+3000, and a
  no-break space, U+00A0.\<close>

definition ideographic_space :: string where
  "ideographic_space = [CHR 0xE3, CHR 0x80, CHR 0x80]"

definition no_break_space :: string where
  "no_break_space = [CHR 0xC2, CHR 0xA0]"

definition qq_cfg_absent :: qq_OutboundConfig where
  "qq_cfg_absent = \<lparr> qq_cfg_channels = Some \<lparr> qqbot = None \<rparr> \<rparr>"

definition qq_cfg_no_secret :: qq_OutboundConfig where
  "qq_cfg_no_secret =
     \<lparr> qq_cfg_channels = Some \<lparr> qqbot = Some
         \<lparr> qq_appId = Some ''102030'', qq_clientSecret = None, qq_markdownSupport = None \<rparr> \<rparr> \<rparr>"

definition dt_media_fails :: dt_env where
  "dt_media_fails =
     \<lparr> dt_getAccessToken = (\<lambda>clientId secret. Inr ''tok''),
       dt_fetch = (\<lambda>url token robot to body. Inr (DtResponse True 200 (Inr ''ok''))),
       sendMediaDingtalk = (\<lambda>cfg to url chatType. Inl (JsError ''upload failed'')),
       json_parse = (\<lambda>body. Inr (JObj [(''processQueryKey'', JStr ''q1'')])),
       to_string = (\<lambda>v. Inr ''?''),
       above_zero = (\<lambda>v. Inr False),
       type_error = JsError ''TypeError'',
       date_now = 1700000000000 \<rparr>"

definition dt_credentials :: DingtalkConfig where
  "dt_credentials = \<lparr> dt_clientId = Some ''robot'', dt_clientSecret = Some ''secret'' \<rparr>"

definition dt_configured :: dt_OutboundConfig where
  "dt_configured = \<lparr> dt_cfg_channels = Some \<lparr> dingtalk = Some dt_credentials \<rparr> \<rparr>"

section \<open>StreamSessionTable\<close>

text \<open>
  Modelled from the spec: the stream session table of the WeCom webhook monitor
  (\<^verbatim>\<open>monitor.js\<close>, imported by the tests of \<^verbatim>\<open>extensions/wecom\<close>), whose file is not among
  the sources.  The definitions follow sections 3 and 4.3 of the specification: a
  session has an identity, an owning account, a routing target, an ordered sequence
  of chunks, a drain cursor, a status and two times.  Stream identifiers are opaque;
  the table hands them out from a counter, so that every \<open>open\<close> returns an
  identifier no earlier session had.  Time is a number the caller passes in.
\<close>

datatype stream_status = Open | Closed

record StreamSession =
  streamId :: nat
  accountId :: string
  target :: string
  chunks :: "string list"
  drained :: nat
  status :: stream_status
  createdAt :: nat
  lastAccess :: nat

record StreamSessionTable =
  sessions :: "StreamSession list"
  nextId :: nat

definition empty_table :: StreamSessionTable where
  "empty_table = \<lparr> sessions = [], nextId = 0 \<rparr>"

definition lookup_session :: "StreamSessionTable \<Rightarrow> nat \<Rightarrow> StreamSession option" where
  "lookup_session tbl sid = find (\<lambda>s. streamId s = sid) (sessions tbl)"

definition is_open_for :: "string \<Rightarrow> string \<Rightarrow> StreamSession \<Rightarrow> bool" where
  "is_open_for acct tgt s = (accountId s = acct \<and> target s = tgt \<and> status s = Open)"

text \<open>
  Modelled from the spec: \<open>open(accountId, target) -> streamId\<close> closes any existing
  open session for the pair and creates a new session with an empty chunk sequence
  and status \<open>open\<close>.
\<close>

definition open_session ::
  "StreamSessionTable \<Rightarrow> string \<Rightarrow> string \<Rightarrow> nat \<Rightarrow> nat \<times> StreamSessionTable" where
  "open_session tbl acct tgt now =
     (let closed_prior =
            map (\<lambda>s. if is_open_for acct tgt s then s\<lparr>status := Closed\<rparr> else s) (sessions tbl);
          fresh = \<lparr> streamId = nextId tbl, accountId = acct, target = tgt, chunks = [],
                    drained = 0, status = Open, createdAt = now, lastAccess = now \<rparr>
      in (nextId tbl, \<lparr> sessions = closed_prior @ [fresh], nextId = Suc (nextId tbl) \<rparr>))"

text \<open>
  Modelled from the spec: \<open>append(streamId, chunk) -> bool\<close> returns \<open>false\<close> if the
  session does not exist or is closed; otherwise it appends the chunk to the ordered
  sequence, updates the last-access time and returns \<open>true\<close>.
\<close>

definition append_chunk ::
  "StreamSessionTable \<Rightarrow> nat \<Rightarrow> string \<Rightarrow> nat \<Rightarrow> bool \<times> StreamSessionTable" where
  "append_chunk tbl sid chunk now =
     (case lookup_session tbl sid of
        None \<Rightarrow> (False, tbl)
      | Some s \<Rightarrow>
          if status s = Closed then (False, tbl)
          else
            (True,
             tbl\<lparr>sessions :=
                   map (\<lambda>s. if streamId s = sid
                             then s\<lparr>chunks := chunks s @ [chunk], lastAccess := now\<rparr> else s)
                     (sessions tbl)\<rparr>))"

text \<open>
  Modelled from the spec: \<open>drain(streamId) -> (chunks, status)\<close> returns the chunks
  accumulated since the previous drain (all of them at the first call) and the current
  status; the cursor marks them as delivered.  A session that is not in the table has
  nothing to drain.
\<close>

definition drain ::
  "StreamSessionTable \<Rightarrow> nat \<Rightarrow> (string list \<times> stream_status) option \<times> StreamSessionTable" where
  "drain tbl sid =
     (case lookup_session tbl sid of
        None \<Rightarrow> (None, tbl)
      | Some s \<Rightarrow>
          (Some (drop (drained s) (chunks s), status s),
           tbl\<lparr>sessions :=
                 map (\<lambda>s. if streamId s = sid then s\<lparr>drained := length (chunks s)\<rparr> else s)
                   (sessions tbl)\<rparr>))"

text \<open>Modelled from the spec: \<open>close(streamId)\<close> marks the session terminal.\<close>

definition close_session :: "StreamSessionTable \<Rightarrow> nat \<Rightarrow> StreamSessionTable" where
  "close_session tbl sid =
     tbl\<lparr>sessions :=
           map (\<lambda>s. if streamId s = sid then s\<lparr>status := Closed\<rparr> else s) (sessions tbl)\<rparr>"

text \<open>
  Modelled from the spec: background eviction removes every session whose last access
  is more than the TTL ago, whatever its status.
\<close>

definition evict :: "StreamSessionTable \<Rightarrow> nat \<Rightarrow> nat \<Rightarrow> StreamSessionTable" where
  "evict tbl now ttl = tbl\<lparr>sessions := filter (\<lambda>s. now - lastAccess s \<le> ttl) (sessions tbl)\<rparr>"

text \<open>
  The callers of the table, one operation after the other: a reachable table is what a
  list of operations makes of the empty table.
\<close>

datatype table_op =
    OpOpen string string nat
  | OpAppend nat string nat
  | OpDrain nat
  | OpClose nat
  | OpEvict nat nat

fun apply_op :: "table_op \<Rightarrow> StreamSessionTable \<Rightarrow> StreamSessionTable" where
  "apply_op (OpOpen acct tgt now) tbl = snd (open_session tbl acct tgt now)"
| "apply_op (OpAppend sid chunk now) tbl = snd (append_chunk tbl sid chunk now)"
| "apply_op (OpDrain sid) tbl = snd (drain tbl sid)"
| "apply_op (OpClose sid) tbl = close_session tbl sid"
| "apply_op (OpEvict now ttl) tbl = evict tbl now ttl"

definition run_ops :: "table_op list \<Rightarrow> StreamSessionTable \<Rightarrow> StreamSessionTable" where
  "run_ops ops tbl = fold apply_op ops tbl"

text \<open>The sessions that are open, by the pair they are open for.\<close>

definition open_pairs :: "StreamSessionTable \<Rightarrow> (string \<times> string) list" where
  "open_pairs tbl =
     map (\<lambda>s. (accountId s, target s)) (filter (\<lambda>s. status s = Open) (sessions tbl))"

definition single_open :: "StreamSessionTable \<Rightarrow> bool" where
  "single_open tbl = distinct (open_pairs tbl)"


text \<open>
  What the proofs keep track of: every identifier in the table is below the counter;
  the sessions that carry a given identifier belong to a given pair; the sessions that
  carry a given identifier are all closed.
\<close>

definition ids_below :: "StreamSessionTable \<Rightarrow> bool" where
  "ids_below tbl = (\<forall>s \<in> set (sessions tbl). streamId s < nextId tbl)"

definition owned_by :: "nat \<Rightarrow> string \<Rightarrow> string \<Rightarrow> StreamSessionTable \<Rightarrow> bool" where
  "owned_by sid acct tgt tbl =
     (sid < nextId tbl \<and>
      (\<forall>s \<in> set (sessions tbl). streamId s = sid \<longrightarrow> accountId s = acct \<and> target s = tgt))"

definition dead :: "nat \<Rightarrow> StreamSessionTable \<Rightarrow> bool" where
  "dead sid tbl =
     (sid < nextId tbl \<and> (\<forall>s \<in> set (sessions tbl). streamId s = sid \<longrightarrow> status s = Closed))"

section \<open>Bytes, base64 and block ciphers\<close>

text \<open>
  The primitives the codec is built from are the platform's, not the repository's:
  base64 (RFC 4648, with padding), and a block cipher on 16-byte blocks.  Base64 is
  written out; the cipher is a parameter: a pair of functions from a key and a block
  to a block.  A cipher is sound when decrypting a block under the key it was
  encrypted with gives the block back, and both keep the block length.
\<close>

type_synonym byte = "8 word"

definition byte_of_char :: "char \<Rightarrow> byte" where
  "byte_of_char c = of_nat (of_char c)"

definition char_of_byte :: "byte \<Rightarrow> char" where
  "char_of_byte b = char_of (unat b)"

definition utf8_bytes :: "string \<Rightarrow> byte list" where
  "utf8_bytes v = map byte_of_char v"

definition utf8_string :: "byte list \<Rightarrow> string" where
  "utf8_string bs = map char_of_byte bs"

definition b64_alphabet :: string where
  "b64_alphabet = ''ABCDEFGHIJKLMNOPQRSTUVWXYZabcdefghijklmnopqrstuvwxyz0123456789+/''"

definition b64_sym :: "nat \<Rightarrow> char" where
  "b64_sym n = b64_alphabet ! n"

definition b64_val :: "char \<Rightarrow> nat option" where
  "b64_val c = map_of (zip b64_alphabet [0..<64]) c"

fun b64_encode :: "byte list \<Rightarrow> string" where
  "b64_encode (a # b # c # rest) =
     [b64_sym (unat a div 4), b64_sym (unat a mod 4 * 16 + unat b div 16),
      b64_sym (unat b mod 16 * 4 + unat c div 64), b64_sym (unat c mod 64)] @ b64_encode rest"
| "b64_encode [a, b] =
     [b64_sym (unat a div 4), b64_sym (unat a mod 4 * 16 + unat b div 16),
      b64_sym (unat b mod 16 * 4), CHR ''='']"
| "b64_encode [a] = [b64_sym (unat a div 4), b64_sym (unat a mod 4 * 16), CHR ''='', CHR ''='']"
| "b64_encode [] = []"

fun b64_decode :: "string \<Rightarrow> byte list option" where
  "b64_decode [] = Some []"
| "b64_decode (c1 # c2 # c3 # c4 # rest) =
     (case (b64_val c1, b64_val c2) of
        (Some v1, Some v2) \<Rightarrow>
          if c3 = CHR ''='' \<and> c4 = CHR ''='' \<and> rest = [] then Some [of_nat (v1 * 4 + v2 div 16)]
          else
            (case b64_val c3 of
               None \<Rightarrow> None
             | Some v3 \<Rightarrow>
                 if c4 = CHR ''='' \<and> rest = [] then
                   Some [of_nat (v1 * 4 + v2 div 16), of_nat (v2 mod 16 * 16 + v3 div 4)]
                 else
                   (case b64_val c4 of
                      None \<Rightarrow> None
                    | Some v4 \<Rightarrow>
                        (case b64_decode rest of
                           None \<Rightarrow> None
                         | Some bs \<Rightarrow>
                             Some (of_nat (v1 * 4 + v2 div 16) #
                                   of_nat (v2 mod 16 * 16 + v3 div 4) #
                                   of_nat (v3 mod 4 * 64 + v4) # bs))))
      | _ \<Rightarrow> None)"
| "b64_decode _ = None"

definition xor_bytes :: "byte list \<Rightarrow> byte list \<Rightarrow> byte list" where
  "xor_bytes xs ys = map2 (XOR) xs ys"

record block_cipher =
  encrypt_block :: "byte list \<Rightarrow> byte list \<Rightarrow> byte list"
  decrypt_block :: "byte list \<Rightarrow> byte list \<Rightarrow> byte list"

definition BLOCK_SIZE :: nat where
  "BLOCK_SIZE = 16"

definition sound_cipher :: "block_cipher \<Rightarrow> bool" where
  "sound_cipher bc =
     (\<forall>key blk. length blk = BLOCK_SIZE \<longrightarrow>
        length (encrypt_block bc key blk) = BLOCK_SIZE \<and>
        decrypt_block bc key (encrypt_block bc key blk) = blk)"

text \<open>Cipher block chaining: each plain block is mixed with the cipher block before it.\<close>

fun cbc_encrypt :: "block_cipher \<Rightarrow> byte list \<Rightarrow> byte list \<Rightarrow> byte list list \<Rightarrow> byte list list" where
  "cbc_encrypt bc key prev [] = []"
| "cbc_encrypt bc key prev (p # ps) =
     (let c = encrypt_block bc key (xor_bytes p prev) in c # cbc_encrypt bc key c ps)"

fun cbc_decrypt :: "block_cipher \<Rightarrow> byte list \<Rightarrow> byte list \<Rightarrow> byte list list \<Rightarrow> byte list list" where
  "cbc_decrypt bc key prev [] = []"
| "cbc_decrypt bc key prev (c # cs) =
     xor_bytes (decrypt_block bc key c) prev # cbc_decrypt bc key c cs"

function blocks_of :: "nat \<Rightarrow> 'a list \<Rightarrow> 'a list list" where
  "blocks_of n xs = (if n = 0 \<or> xs = [] then [] else take n xs # blocks_of n (drop n xs))"
  by pat_completeness auto
termination
  by (relation "measure (\<lambda>(n, xs). length xs)") auto

declare blocks_of.simps [simp del]

section \<open>CryptoCodec\<close>

text \<open>
  Modelled from the spec: \<^verbatim>\<open>encryptWecomPlaintext\<close> and \<^verbatim>\<open>decryptWecomEncrypted\<close> of the
  WeCom extension's \<^verbatim>\<open>crypto.js\<close>, which the tests import and whose file is not among
  the sources.  The definitions follow section 4.1 of the specification, step by step.
  A plaintext and a receiver id are given as the bytes of their UTF-8 encoding; the
  random prefix is drawn from a source of random bytes the caller passes in.
\<close>

datatype crypto_error = InvalidKey | PlaintextTooLong | DecryptionFailure

text \<open>
  Modelled from the spec: the encoding key is base64 (without its padding: the
  43 characters of the scenario stand for 32 bytes); its first 16 bytes are both the
  key and the initialization vector.
\<close>

definition decodeEncodingAESKey :: "string \<Rightarrow> crypto_error + byte list" where
  "decodeEncodingAESKey encodingAESKey =
     (let padded = encodingAESKey @ replicate ((4 - length encodingAESKey mod 4) mod 4) CHR ''=''
      in case b64_decode padded of
           None \<Rightarrow> Inl InvalidKey
         | Some key \<Rightarrow> if length key < 16 then Inl InvalidKey else Inr (take 16 key))"

text \<open>
  Modelled from the spec: byte-value padding to the block size; the pad length equals
  the padding amount, and a full block is added when the input is already aligned.
\<close>

definition pkcs7_pad :: "byte list \<Rightarrow> byte list" where
  "pkcs7_pad bs =
     (let n = BLOCK_SIZE - length bs mod BLOCK_SIZE in bs @ replicate n (of_nat n))"

text \<open>
  Modelled from the spec: the padding bytes must be a valid count in
  \<open>[1, blockSize]\<close> and all equal.
\<close>

definition pkcs7_unpad :: "byte list \<Rightarrow> crypto_error + byte list" where
  "pkcs7_unpad bs =
     (if bs = [] then Inl DecryptionFailure
      else
        let n = unat (last bs) in
        if n < 1 \<or> BLOCK_SIZE < n \<or> length bs < n then Inl DecryptionFailure
        else if drop (length bs - n) bs \<noteq> replicate n (last bs) then Inl DecryptionFailure
        else Inr (take (length bs - n) bs))"

text \<open>The 4-byte big-endian length field.\<close>

definition be32 :: "nat \<Rightarrow> byte list" where
  "be32 n = [of_nat (n div 2 ^ 24), of_nat (n div 2 ^ 16), of_nat (n div 2 ^ 8), of_nat n]"

definition read_be :: "byte list \<Rightarrow> nat" where
  "read_be bs = foldl (\<lambda>acc b. acc * 256 + unat b) 0 bs"

text \<open>
  Modelled from the spec: \<open>encrypt(plaintext, encodingKey, receiverId)\<close>: a random
  16-byte prefix, the 4-byte big-endian length of the plaintext, the plaintext, the
  receiver id; padded, encrypted in CBC mode, base64-encoded.
\<close>

definition encryptWecomPlaintext ::
  "block_cipher \<Rightarrow> (nat \<Rightarrow> byte) \<Rightarrow> string \<Rightarrow> string \<Rightarrow> string \<Rightarrow> crypto_error + string" where
  "encryptWecomPlaintext bc random encodingAESKey receiveId plaintext =
     (case decodeEncodingAESKey encodingAESKey of
        Inl e \<Rightarrow> Inl e
      | Inr key \<Rightarrow>
          let msg = utf8_bytes plaintext in
          if 2 ^ 32 \<le> length msg then Inl PlaintextTooLong
          else
            let prefix = map random [0..<16];
                frame = prefix @ be32 (length msg) @ msg @ utf8_bytes receiveId;
                encrypted = cbc_encrypt bc key key (blocks_of BLOCK_SIZE (pkcs7_pad frame))
            in Inr (b64_encode (concat encrypted)))"

text \<open>
  Modelled from the spec: \<open>decrypt(ciphertextBase64, encodingKey, receiverId)\<close>
  reverses every step and checks the padding, the declared length against the
  recovered plaintext, and the trailing receiver id; any mismatch is a
  \<open>DecryptionFailure\<close>.
\<close>

definition decryptWecomEncrypted ::
  "block_cipher \<Rightarrow> string \<Rightarrow> string \<Rightarrow> string \<Rightarrow> crypto_error + string" where
  "decryptWecomEncrypted bc encodingAESKey receiveId encrypt =
     (case decodeEncodingAESKey encodingAESKey of
        Inl e \<Rightarrow> Inl e
      | Inr key \<Rightarrow>
          (case b64_decode encrypt of
             None \<Rightarrow> Inl DecryptionFailure
           | Some raw \<Rightarrow>
               if raw = [] \<or> length raw mod BLOCK_SIZE \<noteq> 0 then Inl DecryptionFailure
               else
                 (case pkcs7_unpad (concat (cbc_decrypt bc key key (blocks_of BLOCK_SIZE raw))) of
                    Inl e \<Rightarrow> Inl e
                  | Inr frame \<Rightarrow>
                      if length frame < 20 then Inl DecryptionFailure
                      else
                        let declared = read_be (take 4 (drop 16 frame));
                            msg = take declared (drop 20 frame);
                            trailing = drop (20 + declared) frame
                        in
                        if length msg \<noteq> declared then Inl DecryptionFailure
                        else if trailing \<noteq> utf8_bytes receiveId then Inl DecryptionFailure
                        else Inr (utf8_string msg))))"


text \<open>
  Concrete inputs: the encoding key and receiver id of the extension's tests, and a
  small sound cipher that shifts every byte of a block by the sum of the key bytes.
\<close>

definition caesar :: block_cipher where
  "caesar =
     \<lparr> encrypt_block = (\<lambda>key blk. map (\<lambda>b. b + sum_list key) blk),
       decrypt_block = (\<lambda>key blk. map (\<lambda>b. b - sum_list key) blk) \<rparr>"

definition test_encodingAESKey :: string where
  "test_encodingAESKey = ''abcdefghijklmnopqrstuvwxyz0123456789ABCDEFG''"

definition test_receiveId :: string where
  "test_receiveId = ''corp123''"


section \<open>Properties of trim\<close>

lemma strip_start_Nil: "strip_start ws [] = []"
proof -
  have "find (\<lambda>w. w \<noteq> [] \<and> startsWith [] w) ws = None"
    by (auto simp: find_None_iff startsWith_def)
  then show ?thesis by (subst strip_start.simps) simp
qed

lemma js_trim_Nil: "js_trim [] = []"
  by (simp add: js_trim_def strip_start_Nil)

text \<open>
  White space outside ASCII goes as well: an ideographic space, a no-break space, and
  a mixed run around a text that itself holds a space.
\<close>

lemma js_trim_ideographic_space: "js_trim ideographic_space = []"
  by (simp add: js_trim_def ideographic_space_def strip_start.simps js_whitespace_def
      startsWith_def)

lemma js_trim_no_break_space: "js_trim no_break_space = []"
  by (simp add: js_trim_def no_break_space_def strip_start.simps js_whitespace_def
      startsWith_def)

lemma js_trim_mixed:
  "js_trim ([CHR 0xE3, CHR 0x80, CHR 0x80] @ '' see file '' @
            [CHR 0xEF, CHR 0xBB, CHR 0xBF, CHR 0x0A]) = ''see file''"
  by (simp add: js_trim_def strip_start.simps js_whitespace_def startsWith_def)

lemma js_trim_see_file: "js_trim ''see file'' = ''see file''"
  by (simp add: js_trim_def strip_start.simps js_whitespace_def startsWith_def)


section \<open>Properties of the install hint\<close>

lemma show_shown: "showChinaInstallHint api True = ([], True)"
  by (simp add: showChinaInstallHint_def hasShownInstallHint_def)

lemma show_prints_sets: "fst (showChinaInstallHint api root) \<noteq> [] \<Longrightarrow> snd (showChinaInstallHint api root) = True"
  by (auto simp: showChinaInstallHint_def hasShownInstallHint_def markInstallHintShown_def Let_def split: if_splits option.splits)

lemma run_hints_shown: "run_hints apis True = (replicate (length apis) [], True)"
  by (induction apis) (simp_all add: show_shown)

lemma run_hints_at_most_once:
  "length (filter (\<lambda>out. out \<noteq> []) (fst (run_hints apis root))) \<le> 1"
proof (induction apis arbitrary: root)
  case Nil
  then show ?case by simp
next
  case (Cons api apis)
  show ?case
  proof (cases "fst (showChinaInstallHint api root) = []")
    case True
    then show ?thesis using Cons [of "snd (showChinaInstallHint api root)"]
      by (simp add: split_beta Let_def)
  next
    case False
    then have "snd (showChinaInstallHint api root) = True" by (rule show_prints_sets)
    then show ?thesis using False
      by (simp add: split_beta Let_def run_hints_shown)
  qed
qed

lemma enabled_channel_found:
  assumes "cfg = JObj fs" "map_of fs ''channels'' = Some (JObj channels)"
    and "channelId \<in> set SUPPORTED_CHANNELS"
    and "map_of channels channelId = Some (JObj channelConfig)"
    and "map_of channelConfig ''enabled'' = Some (JBool True)"
  shows "hasAnyEnabledChinaChannel cfg"
proof -
  have "channelEnabled channels channelId"
    using assms(4,5) by (simp add: channelEnabled_def getProp_def)
  then have "list_ex (channelEnabled channels) SUPPORTED_CHANNELS"
    using assms(3) by (auto simp: list_ex_iff)
  then show ?thesis
    using assms(1,2) by (simp add: hasAnyEnabledChinaChannel_def getProp_def)
qed

text \<open>
  C9.  \<^verbatim>\<open>showChinaInstallHint\<close> prints the install-hint lines at most once per process:
  a call that prints sets the flag, and from then on every later call, whatever its
  argument, logs nothing and leaves the flag set; so among the calls of any sequence,
  from any starting flag, at most one logs anything.  And a call whose
  \<^verbatim>\<open>api.config.channels\<close> holds a supported channel whose \<^verbatim>\<open>enabled\<close> is exactly \<^verbatim>\<open>true\<close>
  logs nothing and does not set the flag: the flag is afterwards what it was before.
\<close>

theorem showChinaInstallHint_once:
  "(fst (showChinaInstallHint api root) \<noteq> [] \<longrightarrow>
      snd (showChinaInstallHint api root) = True \<and>
      run_hints later (snd (showChinaInstallHint api root)) = (replicate (length later) [], True))
   \<and> length (filter (\<lambda>out. out \<noteq> []) (fst (run_hints apis root0))) \<le> 1
   \<and> (config api' = JObj fs \<and> map_of fs ''channels'' = Some (JObj channels) \<and>
      channelId \<in> set SUPPORTED_CHANNELS \<and>
      map_of channels channelId = Some (JObj channelConfig) \<and>
      map_of channelConfig ''enabled'' = Some (JBool True) \<longrightarrow>
      showChinaInstallHint api' root' = ([], root'))"
proof (intro conjI impI)
  assume p: "fst (showChinaInstallHint api root) \<noteq> []"
  then show s: "snd (showChinaInstallHint api root) = True" by (rule show_prints_sets)
  show "run_hints later (snd (showChinaInstallHint api root)) = (replicate (length later) [], True)"
    by (simp add: s run_hints_shown)
next
  show "length (filter (\<lambda>out. out \<noteq> []) (fst (run_hints apis root0))) \<le> 1"
    by (rule run_hints_at_most_once)
next
  assume "config api' = JObj fs \<and> map_of fs ''channels'' = Some (JObj channels) \<and>
      channelId \<in> set SUPPORTED_CHANNELS \<and>
      map_of channels channelId = Some (JObj channelConfig) \<and>
      map_of channelConfig ''enabled'' = Some (JBool True)"
  then have "hasAnyEnabledChinaChannel (config api')"
    using enabled_channel_found by blast
  then show "showChinaInstallHint api' root' = ([], root')"
    by (simp add: showChinaInstallHint_def)
qed

text \<open>
  The hypotheses of C9 at concrete callers: a caller with an \<^verbatim>\<open>info\<close> logger and no
  channels prints the fifteen lines and sets the flag, after which two more calls print
  nothing; a caller whose \<^verbatim>\<open>wecom\<close> channel is enabled prints nothing and leaves the
  flag unset.
\<close>

theorem showChinaInstallHint_once_witness:
  "fst (showChinaInstallHint api_info False) = map LogInfo hint_lines
   \<and> length hint_lines = 15
   \<and> snd (showChinaInstallHint api_info False) = True
   \<and> run_hints [api_info, api_wecom] (snd (showChinaInstallHint api_info False)) = ([[], []], True)
   \<and> length (filter (\<lambda>out. out \<noteq> []) (fst (run_hints [api_wecom, api_info, api_info] False))) \<le> 1
   \<and> ''wecom'' \<in> set SUPPORTED_CHANNELS
   \<and> showChinaInstallHint api_wecom False = ([], False)"
proof -
  have prints: "fst (showChinaInstallHint api_info False) = map LogInfo hint_lines"
    by (simp add: showChinaInstallHint_def api_info_def hasShownInstallHint_def
        hasAnyEnabledChinaChannel_def getProp_def markInstallHintShown_def)
  have n: "length hint_lines = 15"
    by (simp add: hint_lines_def)
  have ne: "fst (showChinaInstallHint api_info False) \<noteq> []"
    using prints n by auto
  have sup: "''wecom'' \<in> set SUPPORTED_CHANNELS"
    by (simp add: SUPPORTED_CHANNELS_def)
  have cfg: "config api_wecom = JObj [(''channels'', JObj [(''wecom'', JObj [(''enabled'', JBool True)])])]
      \<and> map_of [(''channels'', JObj [(''wecom'', JObj [(''enabled'', JBool True)])])] ''channels'' =
          Some (JObj [(''wecom'', JObj [(''enabled'', JBool True)])])
      \<and> ''wecom'' \<in> set SUPPORTED_CHANNELS
      \<and> map_of [(''wecom'', JObj [(''enabled'', JBool True)])] ''wecom'' =
          Some (JObj [(''enabled'', JBool True)])
      \<and> map_of [(''enabled'', JBool True)] ''enabled'' = Some (JBool True)"
    using sup by (simp add: api_wecom_def)
  note once = showChinaInstallHint_once
      [of api_info False "[api_info, api_wecom]" "[api_wecom, api_info, api_info]" False
          api_wecom "[(''channels'', JObj [(''wecom'', JObj [(''enabled'', JBool True)])])]"
          "[(''wecom'', JObj [(''enabled'', JBool True)])]" "''wecom''"
          "[(''enabled'', JBool True)]" False]
  from once ne have a1: "snd (showChinaInstallHint api_info False) = True"
    by blast
  from once ne have a2:
    "run_hints [api_info, api_wecom] (snd (showChinaInstallHint api_info False)) =
       (replicate (length [api_info, api_wecom]) [], True)"
    by blast
  have a3: "replicate (length [api_info, api_wecom]) [] = [[], [] :: log_event list]"
    by simp
  from once have b:
    "length (filter (\<lambda>out. out \<noteq> []) (fst (run_hints [api_wecom, api_info, api_info] False))) \<le> 1"
    by blast
  from once cfg have c: "showChinaInstallHint api_wecom False = ([], False)"
    by blast
  show ?thesis
    using prints n a1 a2 [unfolded a3] b c sup by (simp only: simp_thms)
qed


section \<open>Properties of the QQ Bot adapter\<close>

lemma effective_none: "qq_rawCfg cfg = None \<Longrightarrow> qq_effectiveCfg env cfg = None"
  by (simp add: qq_effectiveCfg_def)

lemma effective_missing:
  assumes "schema_adds_no_credentials env" "qq_rawCfg cfg = Some raw"
    and "\<not> truthy (qq_appId raw) \<or> \<not> truthy (qq_clientSecret raw)"
  shows "\<exists>q. qq_effectiveCfg env cfg = Some q \<and> (\<not> truthy (qq_appId q) \<or> \<not> truthy (qq_clientSecret q))"
proof (cases "safeParse env raw")
  case None
  then show ?thesis using assms by (simp add: qq_effectiveCfg_def)
next
  case (Some parsed)
  then have "\<not> truthy (qq_appId parsed) \<or> \<not> truthy (qq_clientSecret parsed)"
    using assms(1,3) unfolding schema_adds_no_credentials_def by blast
  then show ?thesis using assms(2) Some by (simp add: qq_effectiveCfg_def)
qed

lemma sendText_unconfigured:
  assumes "schema_adds_no_credentials env" "qq_unconfigured cfg"
  shows "qq_sendText env cfg to body replyToId = ([], Inr (qq_error_result (qq_config_error cfg)))"
proof (cases "qq_rawCfg cfg")
  case None
  then show ?thesis
    by (simp add: qq_sendText_def effective_none qq_config_error_def NOT_CONFIGURED_def)
next
  case (Some raw)
  then have "\<not> truthy (qq_appId raw) \<or> \<not> truthy (qq_clientSecret raw)"
    using assms(2) by (simp add: qq_unconfigured_def)
  then obtain q where "qq_effectiveCfg env cfg = Some q"
    "\<not> truthy (qq_appId q) \<or> \<not> truthy (qq_clientSecret q)"
    using effective_missing [OF assms(1) Some] by blast
  then show ?thesis using Some
    by (auto simp add: qq_sendText_def qq_config_error_def MISSING_CREDENTIALS_def)
qed

lemma sendMedia_unconfigured:
  assumes "schema_adds_no_credentials env" "qq_unconfigured cfg"
  shows "qq_sendMedia env cfg to caption mediaUrl =
    ([], Inr (qq_error_result
       (if \<not> truthy mediaUrl \<and> \<not> truthy (map_option js_trim caption) then MEDIA_URL_REQUIRED
        else qq_config_error cfg)))"
proof (cases "truthy mediaUrl")
  case False
  then show ?thesis
    using sendText_unconfigured [OF assms]
    by (cases caption) (auto simp add: qq_sendMedia_def MEDIA_URL_REQUIRED_def)
next
  case True
  show ?thesis
  proof (cases "qq_rawCfg cfg")
    case None
    then show ?thesis using True
      by (simp add: qq_sendMedia_def effective_none qq_config_error_def NOT_CONFIGURED_def)
  next
    case (Some raw)
    then have "\<not> truthy (qq_appId raw) \<or> \<not> truthy (qq_clientSecret raw)"
      using assms(2) by (simp add: qq_unconfigured_def)
    then obtain q where "qq_effectiveCfg env cfg = Some q"
      "\<not> truthy (qq_appId q) \<or> \<not> truthy (qq_clientSecret q)"
      using effective_missing [OF assms(1) Some] by blast
    then show ?thesis using Some True
      by (auto simp add: qq_sendMedia_def qq_config_error_def MISSING_CREDENTIALS_def)
  qed
qed

lemma sendMedia_needs_url:
  assumes "\<not> truthy mediaUrl" "\<not> truthy (map_option js_trim caption)"
  shows "qq_sendMedia env cfg to caption mediaUrl = ([], Inr (qq_error_result MEDIA_URL_REQUIRED))"
  using assms by (cases caption) (auto simp add: qq_sendMedia_def MEDIA_URL_REQUIRED_def)

text \<open>
  C10, as the specification words it, does not hold of \<^verbatim>\<open>sendMedia\<close>: its first sentence
  promises one of the two configuration errors for every call with an absent channel,
  but \<^verbatim>\<open>sendMedia\<close> checks its arguments before it looks at the configuration.  Here
  the channel is absent and the call has neither a \<^verbatim>\<open>mediaUrl\<close> nor a text: the error is
  \<^verbatim>\<open>"mediaUrl is required for sendMedia"\<close>, which is neither of the two.
\<close>

theorem qqbot_sendMedia_checks_arguments_first:
  "qq_rawCfg qq_cfg_absent = None
   \<and> qq_sendMedia qq_offline qq_cfg_absent ''user:alice'' None None =
       ([], Inr (qq_error_result ''mediaUrl is required for sendMedia''))
   \<and> qq_error (qq_error_result ''mediaUrl is required for sendMedia'') \<noteq>
       Some ''QQBot channel not configured''
   \<and> qq_error (qq_error_result ''mediaUrl is required for sendMedia'') \<noteq>
       Some ''QQBot not configured (missing appId/clientSecret)''"
  by (simp add: qq_rawCfg_def qq_cfg_absent_def qq_sendMedia_def qq_error_result_def)

text \<open>
  C10, amended.  When \<^verbatim>\<open>cfg.channels.qqbot\<close> is absent, or its \<^verbatim>\<open>appId\<close> or
  \<^verbatim>\<open>clientSecret\<close> is missing, every call of \<^verbatim>\<open>sendText\<close>, and every call of \<^verbatim>\<open>sendMedia\<close>
  that has a \<^verbatim>\<open>mediaUrl\<close> or a text that is non-empty after trimming, returns (it does
  not throw: the outcome is \<open>Inr\<close>) the error result, whose channel is \<^verbatim>\<open>"qqbot"\<close> and
  whose error is \<^verbatim>\<open>"QQBot channel not configured"\<close> when the channel is absent and
  \<^verbatim>\<open>"QQBot not configured (missing appId/clientSecret)"\<close> otherwise, and no call leaves
  the process (the trace is empty).  A call of \<^verbatim>\<open>sendMedia\<close> without a \<^verbatim>\<open>mediaUrl\<close> and
  without a text that is non-empty after trimming returns the error
  \<^verbatim>\<open>"mediaUrl is required for sendMedia"\<close>, configured or not, again with an empty
  trace.  All three errors are non-empty strings.  The schema is asked not to add
  credentials the raw configuration lacks.
\<close>

theorem qqbot_unconfigured_returns_error:
  "(schema_adds_no_credentials env \<and> qq_unconfigured cfg \<longrightarrow>
      qq_sendText env cfg to body replyToId = ([], Inr (qq_error_result (qq_config_error cfg))) \<and>
      qq_sendMedia env cfg to caption mediaUrl =
        ([], Inr (qq_error_result
           (if \<not> truthy mediaUrl \<and> \<not> truthy (map_option js_trim caption) then MEDIA_URL_REQUIRED
            else qq_config_error cfg))))
   \<and> (\<not> truthy mediaUrl' \<and> \<not> truthy (map_option js_trim caption') \<longrightarrow>
      qq_sendMedia env' cfg' to' caption' mediaUrl' = ([], Inr (qq_error_result MEDIA_URL_REQUIRED)))
   \<and> qq_channel (qq_error_result msg) = ''qqbot'' \<and> qq_error (qq_error_result msg) = Some msg
   \<and> qq_config_error cfg \<in> {NOT_CONFIGURED, MISSING_CREDENTIALS}
   \<and> (qq_rawCfg cfg = None \<longrightarrow> qq_config_error cfg = NOT_CONFIGURED)
   \<and> (qq_rawCfg cfg \<noteq> None \<longrightarrow> qq_config_error cfg = MISSING_CREDENTIALS)
   \<and> NOT_CONFIGURED \<noteq> [] \<and> MISSING_CREDENTIALS \<noteq> [] \<and> MEDIA_URL_REQUIRED \<noteq> []"
  using sendText_unconfigured [of env cfg to body replyToId]
    sendMedia_unconfigured [of env cfg to caption mediaUrl]
    sendMedia_needs_url [of mediaUrl' caption' env' cfg' to']
  by (simp add: qq_error_result_def qq_config_error_def NOT_CONFIGURED_def MISSING_CREDENTIALS_def
      MEDIA_URL_REQUIRED_def)

text \<open>
  The hypotheses of the amended C10 at concrete inputs, in an environment where every
  request would fail: a text sent with the channel absent; a picture sent with the
  \<^verbatim>\<open>clientSecret\<close> missing; and a \<^verbatim>\<open>sendMedia\<close> without a \<^verbatim>\<open>mediaUrl\<close> whose text is one
  ideographic space, which trimming empties.
\<close>

theorem qqbot_unconfigured_returns_error_witness:
  "schema_adds_no_credentials qq_offline
   \<and> qq_unconfigured qq_cfg_absent \<and> qq_unconfigured qq_cfg_no_secret
   \<and> qq_sendText qq_offline qq_cfg_absent ''user:alice'' ''hi'' None =
       ([], Inr (qq_error_result ''QQBot channel not configured''))
   \<and> qq_sendMedia qq_offline qq_cfg_no_secret ''group:g1'' None (Some ''https://cdn.example.com/a.png'') =
       ([], Inr (qq_error_result ''QQBot not configured (missing appId/clientSecret)''))
   \<and> \<not> truthy (map_option js_trim (Some ideographic_space))
   \<and> qq_sendMedia qq_offline qq_cfg_absent ''user:alice'' (Some ideographic_space) None =
       ([], Inr (qq_error_result ''mediaUrl is required for sendMedia''))"
proof -
  have schema: "schema_adds_no_credentials qq_offline"
    by (simp add: schema_adds_no_credentials_def qq_offline_def)
  have absent: "qq_unconfigured qq_cfg_absent" "qq_rawCfg qq_cfg_absent = None"
    by (simp_all add: qq_unconfigured_def qq_rawCfg_def qq_cfg_absent_def)
  have no_secret: "qq_unconfigured qq_cfg_no_secret" "qq_rawCfg qq_cfg_no_secret \<noteq> None"
    by (simp_all add: qq_unconfigured_def qq_rawCfg_def qq_cfg_no_secret_def)
  have blank: "\<not> truthy (map_option js_trim (Some ideographic_space))"
    by (simp add: js_trim_ideographic_space)
  have url: "truthy (Some ''https://cdn.example.com/a.png'')" "\<not> truthy None"
    by simp_all
  note one = qqbot_unconfigured_returns_error
      [of qq_offline qq_cfg_absent "''user:alice''" "''hi''" None None None None
          "Some ideographic_space" qq_offline qq_cfg_absent "''user:alice''" "[]"]
  note two = qqbot_unconfigured_returns_error
      [of qq_offline qq_cfg_no_secret "''group:g1''" "[]" None None
          "Some ''https://cdn.example.com/a.png''" None None
          qq_offline qq_cfg_absent "[]" "[]"]
  from one schema absent have a:
    "qq_sendText qq_offline qq_cfg_absent ''user:alice'' ''hi'' None =
       ([], Inr (qq_error_result (qq_config_error qq_cfg_absent)))"
    by blast
  from one absent have a': "qq_config_error qq_cfg_absent = NOT_CONFIGURED"
    by blast
  from two schema no_secret have b:
    "qq_sendMedia qq_offline qq_cfg_no_secret ''group:g1'' None (Some ''https://cdn.example.com/a.png'') =
       ([], Inr (qq_error_result
          (if \<not> truthy (Some ''https://cdn.example.com/a.png'') \<and> \<not> truthy (map_option js_trim None)
           then MEDIA_URL_REQUIRED else qq_config_error qq_cfg_no_secret)))"
    by blast
  from two no_secret have b': "qq_config_error qq_cfg_no_secret = MISSING_CREDENTIALS"
    by blast
  from one url(2) blank have c:
    "qq_sendMedia qq_offline qq_cfg_absent ''user:alice'' (Some ideographic_space) None =
       ([], Inr (qq_error_result MEDIA_URL_REQUIRED))"
    by blast
  show ?thesis
    using schema absent(1) no_secret(1) blank a b c
    by (simp add: a' b' NOT_CONFIGURED_def MISSING_CREDENTIALS_def MEDIA_URL_REQUIRED_def)
qed


section \<open>Properties of the DingTalk adapter\<close>

lemma dt_sendMedia_media_failed:
  assumes "sendMediaDingtalk env dcfg targetId url chatType = Inl err"
  shows "dt_sendMedia_media env dcfg targetId chatType url =
     ([DtSendMedia dcfg targetId url chatType,
       DtConsoleError ''[dingtalk] sendMediaDingtalk failed:'' err] @
      fst (sendMessageDingtalk env dcfg targetId (dt_fallbackText url) chatType),
      map_sum id dt_send_result
        (snd (sendMessageDingtalk env dcfg targetId (dt_fallbackText url) chatType)))"
  using assms by (simp add: dt_sendMedia_media_def split_beta)

lemma sendMessageDingtalk_direct_ok:
  "sendMessageDingtalk dt_media_fails dt_credentials ''alice'' body Direct =
     ([DtGetAccessToken ''robot'' ''secret'',
       DtPost ''https://api.dingtalk.com/v1.0/robot/oToMessages/batchSend'' ''tok'' ''robot''
         ''alice'' body],
      Inr \<lparr> dr_messageId = JStr ''q1'', dr_conversationId = ''alice'' \<rparr>)"
  by (simp add: sendMessageDingtalk_def sendDirectMessage_def dt_media_fails_def
      dt_credentials_def DINGTALK_API_BASE_def getProp_def dt_message_id_def
      dt_invalid_staff_def)

text \<open>
  C8, as the specification words it, does not hold of \<^verbatim>\<open>dingtalkOutbound.sendMedia\<close>:
  here the media send throws, and \<^verbatim>\<open>sendMedia\<close> itself logs the error with
  \<^verbatim>\<open>console.error\<close>, itself posts the fallback text, and returns an ordinary
  \<^verbatim>\<open>SendResult\<close> (the \<open>Inr\<close> variant, with the fallback message's id) in which
  nothing tells the caller that the media send failed.
\<close>

theorem dt_sendMedia_failure_not_returned:
  "sendMediaDingtalk dt_media_fails dt_credentials ''alice'' ''https://cdn.example.com/report.pdf''
       Direct = Inl (JsError ''upload failed'')
   \<and> dt_sendMedia dt_media_fails dt_configured ''user:alice'' None
       (Some ''https://cdn.example.com/report.pdf'') =
     ([DtSendMedia dt_credentials ''alice'' ''https://cdn.example.com/report.pdf'' Direct,
       DtConsoleError ''[dingtalk] sendMediaDingtalk failed:'' (JsError ''upload failed''),
       DtGetAccessToken ''robot'' ''secret'',
       DtPost ''https://api.dingtalk.com/v1.0/robot/oToMessages/batchSend'' ''tok'' ''robot''
         ''alice'' ([CHR 0xF0, CHR 0x9F, CHR 0x93, CHR 0x8E] @ '' https://cdn.example.com/report.pdf'')],
      Inr \<lparr> sr_channel = ''dingtalk'', sr_messageId = JStr ''q1'', sr_chatId = Some ''alice'',
            sr_conversationId = Some ''alice'' \<rparr>)"
proof -
  have fails: "sendMediaDingtalk dt_media_fails dt_credentials ''alice''
      ''https://cdn.example.com/report.pdf'' Direct = Inl (JsError ''upload failed'')"
    by (simp add: dt_media_fails_def)
  have target: "dt_parseTarget ''user:alice'' = (''alice'', Direct)"
    by (simp add: dt_parseTarget_def startsWith_def slice_from_def)
  have cfg: "dt_cfg dt_configured = Some dt_credentials"
    by (simp add: dt_cfg_def dt_configured_def)
  show ?thesis
    using fails
    by (simp add: dt_sendMedia_def cfg target dt_sendMedia_media_failed [OF fails]
        sendMessageDingtalk_direct_ok dt_send_result_def dt_fallbackText_def)
qed

text \<open>
  C8, amended: when the media send inside \<^verbatim>\<open>sendMedia\<close> fails (and the text sent before
  it, if any, went through), \<^verbatim>\<open>sendMedia\<close> itself catches the error, logs it with
  \<^verbatim>\<open>console.error\<close> and sends the fallback text, a paperclip and the URL, through
  \<^verbatim>\<open>sendMessageDingtalk\<close>.  What the caller gets is the outcome of that fallback send:
  an ordinary \<^verbatim>\<open>SendResult\<close> made of the fallback message's ids, or the exception the
  fallback send threw.  The media error is in the log and nowhere in the returned
  value.
\<close>

theorem dt_sendMedia_falls_back_itself:
  assumes "dt_cfg cfg = Some dingtalkCfg"
    and "dt_parseTarget to = (targetId, chatType)"
    and "mediaUrl \<noteq> []"
    and "sendMediaDingtalk env dingtalkCfg targetId mediaUrl chatType = Inl err"
    and "truthy (map_option js_trim caption) \<longrightarrow>
           (\<exists>sent. snd (sendMessageDingtalk env dingtalkCfg targetId (the caption) chatType) = Inr sent)"
  shows "dt_sendMedia env cfg to caption (Some mediaUrl) =
           ((if truthy (map_option js_trim caption)
             then fst (sendMessageDingtalk env dingtalkCfg targetId (the caption) chatType) else []) @
            [DtSendMedia dingtalkCfg targetId mediaUrl chatType,
             DtConsoleError ''[dingtalk] sendMediaDingtalk failed:'' err] @
            fst (sendMessageDingtalk env dingtalkCfg targetId (dt_fallbackText mediaUrl) chatType),
            map_sum id dt_send_result
              (snd (sendMessageDingtalk env dingtalkCfg targetId (dt_fallbackText mediaUrl) chatType)))"
proof (cases "truthy (map_option js_trim caption)")
  case False
  then show ?thesis
    using assms(1-4) by (simp add: dt_sendMedia_def dt_sendMedia_media_failed)
next
  case True
  then obtain sent where
    "snd (sendMessageDingtalk env dingtalkCfg targetId (the caption) chatType) = Inr sent"
    using assms(5) by blast
  then show ?thesis
    using True assms(1-4)
    by (simp add: dt_sendMedia_def dt_sendMedia_media_failed split_beta)
qed

text \<open>
  The hypotheses of the amended C8 at concrete inputs: a configured adapter, a direct
  target, a media send that throws.  With the caption \<^verbatim>\<open>see file\<close> six events leave the
  process, the caption first.  With a caption that is one no-break space, which
  trimming empties, no caption is sent: four events, and the same returned value.
\<close>

theorem dt_sendMedia_falls_back_itself_witness:
  "dt_cfg dt_configured = Some dt_credentials
   \<and> dt_parseTarget ''user:alice'' = (''alice'', Direct)
   \<and> sendMediaDingtalk dt_media_fails dt_credentials ''alice'' ''https://cdn.example.com/report.pdf''
       Direct = Inl (JsError ''upload failed'')
   \<and> truthy (map_option js_trim (Some ''see file''))
   \<and> snd (sendMessageDingtalk dt_media_fails dt_credentials ''alice'' ''see file'' Direct) =
       Inr \<lparr> dr_messageId = JStr ''q1'', dr_conversationId = ''alice'' \<rparr>
   \<and> dt_sendMedia dt_media_fails dt_configured ''user:alice'' (Some ''see file'')
       (Some ''https://cdn.example.com/report.pdf'') =
      ([DtGetAccessToken ''robot'' ''secret'',
        DtPost ''https://api.dingtalk.com/v1.0/robot/oToMessages/batchSend'' ''tok'' ''robot''
          ''alice'' ''see file'',
        DtSendMedia dt_credentials ''alice'' ''https://cdn.example.com/report.pdf'' Direct,
        DtConsoleError ''[dingtalk] sendMediaDingtalk failed:'' (JsError ''upload failed''),
        DtGetAccessToken ''robot'' ''secret'',
        DtPost ''https://api.dingtalk.com/v1.0/robot/oToMessages/batchSend'' ''tok'' ''robot''
          ''alice'' ([CHR 0xF0, CHR 0x9F, CHR 0x93, CHR 0x8E] @ '' https://cdn.example.com/report.pdf'')],
       Inr \<lparr> sr_channel = ''dingtalk'', sr_messageId = JStr ''q1'', sr_chatId = Some ''alice'',
             sr_conversationId = Some ''alice'' \<rparr>)
   \<and> \<not> truthy (map_option js_trim (Some no_break_space))
   \<and> dt_sendMedia dt_media_fails dt_configured ''user:alice'' (Some no_break_space)
       (Some ''https://cdn.example.com/report.pdf'') =
      ([DtSendMedia dt_credentials ''alice'' ''https://cdn.example.com/report.pdf'' Direct,
        DtConsoleError ''[dingtalk] sendMediaDingtalk failed:'' (JsError ''upload failed''),
        DtGetAccessToken ''robot'' ''secret'',
        DtPost ''https://api.dingtalk.com/v1.0/robot/oToMessages/batchSend'' ''tok'' ''robot''
          ''alice'' ([CHR 0xF0, CHR 0x9F, CHR 0x93, CHR 0x8E] @ '' https://cdn.example.com/report.pdf'')],
       Inr \<lparr> sr_channel = ''dingtalk'', sr_messageId = JStr ''q1'', sr_chatId = Some ''alice'',
             sr_conversationId = Some ''alice'' \<rparr>)"
proof -
  have cfg: "dt_cfg dt_configured = Some dt_credentials"
    by (simp add: dt_cfg_def dt_configured_def)
  have target: "dt_parseTarget ''user:alice'' = (''alice'', Direct)"
    by (simp add: dt_parseTarget_def startsWith_def slice_from_def)
  have url: "''https://cdn.example.com/report.pdf'' \<noteq> []"
    by simp
  have fails: "sendMediaDingtalk dt_media_fails dt_credentials ''alice''
      ''https://cdn.example.com/report.pdf'' Direct = Inl (JsError ''upload failed'')"
    by (simp add: dt_media_fails_def)
  have spoken: "truthy (map_option js_trim (Some ''see file''))"
    by (simp add: js_trim_see_file)
  have blank: "\<not> truthy (map_option js_trim (Some no_break_space))"
    by (simp add: js_trim_no_break_space)
  have sent: "snd (sendMessageDingtalk dt_media_fails dt_credentials ''alice'' ''see file'' Direct) =
       Inr \<lparr> dr_messageId = JStr ''q1'', dr_conversationId = ''alice'' \<rparr>"
    by (simp add: sendMessageDingtalk_direct_ok)
  have caption_sent: "truthy (map_option js_trim (Some ''see file'')) \<longrightarrow>
      (\<exists>sent. snd (sendMessageDingtalk dt_media_fails dt_credentials ''alice''
                  (the (Some ''see file'')) Direct) = Inr sent)"
    using sent by simp
  have no_caption: "truthy (map_option js_trim (Some no_break_space)) \<longrightarrow>
      (\<exists>sent. snd (sendMessageDingtalk dt_media_fails dt_credentials ''alice''
                  (the (Some no_break_space)) Direct) = Inr sent)"
    using blank by simp
  have six: "dt_sendMedia dt_media_fails dt_configured ''user:alice'' (Some ''see file'')
       (Some ''https://cdn.example.com/report.pdf'') =
      ([DtGetAccessToken ''robot'' ''secret'',
        DtPost ''https://api.dingtalk.com/v1.0/robot/oToMessages/batchSend'' ''tok'' ''robot''
          ''alice'' ''see file'',
        DtSendMedia dt_credentials ''alice'' ''https://cdn.example.com/report.pdf'' Direct,
        DtConsoleError ''[dingtalk] sendMediaDingtalk failed:'' (JsError ''upload failed''),
        DtGetAccessToken ''robot'' ''secret'',
        DtPost ''https://api.dingtalk.com/v1.0/robot/oToMessages/batchSend'' ''tok'' ''robot''
          ''alice'' ([CHR 0xF0, CHR 0x9F, CHR 0x93, CHR 0x8E] @ '' https://cdn.example.com/report.pdf'')],
       Inr \<lparr> sr_channel = ''dingtalk'', sr_messageId = JStr ''q1'', sr_chatId = Some ''alice'',
             sr_conversationId = Some ''alice'' \<rparr>)"
    using dt_sendMedia_falls_back_itself [OF cfg target url fails caption_sent] spoken
    by (simp add: sendMessageDingtalk_direct_ok dt_send_result_def dt_fallbackText_def)
  have four: "dt_sendMedia dt_media_fails dt_configured ''user:alice'' (Some no_break_space)
       (Some ''https://cdn.example.com/report.pdf'') =
      ([DtSendMedia dt_credentials ''alice'' ''https://cdn.example.com/report.pdf'' Direct,
        DtConsoleError ''[dingtalk] sendMediaDingtalk failed:'' (JsError ''upload failed''),
        DtGetAccessToken ''robot'' ''secret'',
        DtPost ''https://api.dingtalk.com/v1.0/robot/oToMessages/batchSend'' ''tok'' ''robot''
          ''alice'' ([CHR 0xF0, CHR 0x9F, CHR 0x93, CHR 0x8E] @ '' https://cdn.example.com/report.pdf'')],
       Inr \<lparr> sr_channel = ''dingtalk'', sr_messageId = JStr ''q1'', sr_chatId = Some ''alice'',
             sr_conversationId = Some ''alice'' \<rparr>)"
    using dt_sendMedia_falls_back_itself [OF cfg target url fails no_caption] blank
    by (simp add: sendMessageDingtalk_direct_ok dt_send_result_def dt_fallbackText_def)
  show ?thesis
    using cfg target fails spoken sent six blank four by (simp only: simp_thms)
qed


section \<open>Properties of the stream session table\<close>

subsection \<open>Every operation keeps at most one open session per pair\<close>

lemma distinct_open_sub:
  assumes "distinct (map k (filter P xs))" "\<And>x. Q x \<Longrightarrow> P x"
  shows "distinct (map k (filter Q xs))"
proof -
  have eq: "filter Q (filter P xs) = filter Q xs"
    using assms(2) by (auto intro: filter_cong)
  have "distinct (map k (filter Q (filter P xs)))"
    using assms(1) by (rule distinct_map_filter)
  then show ?thesis by (simp only: eq)
qed

lemma open_pairs_keep:
  assumes "\<And>s. s \<in> set xs \<Longrightarrow> status (f s) = status s \<and> accountId (f s) = accountId s \<and> target (f s) = target s"
  shows "map (\<lambda>s. (accountId s, target s)) (filter (\<lambda>s. status s = Open) (map f xs)) =
         map (\<lambda>s. (accountId s, target s)) (filter (\<lambda>s. status s = Open) xs)"
  using assms by (induction xs) auto

lemma open_pairs_close:
  assumes "\<And>s. s \<in> set xs \<Longrightarrow> accountId (f s) = accountId s \<and> target (f s) = target s \<and>
             (status (f s) = Open \<longleftrightarrow> status s = Open \<and> \<not> C s)"
  shows "map (\<lambda>s. (accountId s, target s)) (filter (\<lambda>s. status s = Open) (map f xs)) =
         map (\<lambda>s. (accountId s, target s)) (filter (\<lambda>s. status s = Open \<and> \<not> C s) xs)"
  using assms by (induction xs) auto

lemma single_open_append: "single_open tbl \<Longrightarrow> single_open (snd (append_chunk tbl sid chunk now))"
  unfolding single_open_def open_pairs_def append_chunk_def
  by (auto split: option.splits simp: open_pairs_keep)

lemma single_open_drain: "single_open tbl \<Longrightarrow> single_open (snd (drain tbl sid))"
  unfolding single_open_def open_pairs_def drain_def
  by (auto split: option.splits simp: open_pairs_keep)

lemma single_open_close: "single_open tbl \<Longrightarrow> single_open (close_session tbl sid)"
proof -
  assume a: "single_open tbl"
  have "open_pairs (close_session tbl sid) =
        map (\<lambda>s. (accountId s, target s))
          (filter (\<lambda>s. status s = Open \<and> \<not> streamId s = sid) (sessions tbl))"
    unfolding open_pairs_def close_session_def
    by (simp, rule open_pairs_close) auto
  then show ?thesis using a unfolding single_open_def open_pairs_def
    by (auto intro: distinct_open_sub)
qed

lemma single_open_evict: "single_open tbl \<Longrightarrow> single_open (evict tbl now ttl)"
  unfolding single_open_def open_pairs_def evict_def
  by (auto intro: distinct_open_sub simp: conj_commute)

lemma open_pairs_open:
  "open_pairs (snd (open_session tbl acct tgt now)) =
     map (\<lambda>s. (accountId s, target s))
       (filter (\<lambda>s. status s = Open \<and> \<not> is_open_for acct tgt s) (sessions tbl)) @ [(acct, tgt)]"
proof -
  have "map (\<lambda>s. (accountId s, target s)) (filter (\<lambda>s. status s = Open)
          (map (\<lambda>s. if is_open_for acct tgt s then s\<lparr>status := Closed\<rparr> else s) (sessions tbl))) =
        map (\<lambda>s. (accountId s, target s))
          (filter (\<lambda>s. status s = Open \<and> \<not> is_open_for acct tgt s) (sessions tbl))"
    by (rule open_pairs_close) (auto simp: is_open_for_def)
  then show ?thesis
    by (simp add: open_pairs_def open_session_def Let_def)
qed

lemma single_open_open: "single_open tbl \<Longrightarrow> single_open (snd (open_session tbl acct tgt now))"
proof -
  assume a: "single_open tbl"
  have d: "distinct (map (\<lambda>s. (accountId s, target s))
       (filter (\<lambda>s. status s = Open \<and> \<not> is_open_for acct tgt s) (sessions tbl)))"
    using a unfolding single_open_def open_pairs_def by (auto intro: distinct_open_sub)
  have n: "(acct, tgt) \<notin> set (map (\<lambda>s. (accountId s, target s))
       (filter (\<lambda>s. status s = Open \<and> \<not> is_open_for acct tgt s) (sessions tbl)))"
    by (auto simp: is_open_for_def)
  show ?thesis unfolding single_open_def open_pairs_open using d n by simp
qed

lemma single_open_apply: "single_open tbl \<Longrightarrow> single_open (apply_op op tbl)"
  by (cases op)
     (simp_all add: single_open_open single_open_append single_open_drain single_open_close
        single_open_evict)

lemma single_open_run: "single_open tbl \<Longrightarrow> single_open (run_ops ops tbl)"
  unfolding run_ops_def by (induction ops arbitrary: tbl) (simp_all add: single_open_apply)

lemma single_open_empty: "single_open empty_table"
  by (simp add: single_open_def open_pairs_def empty_table_def)

subsection \<open>A session closed by a later open stays closed\<close>

lemma ids_below_apply: "ids_below tbl \<Longrightarrow> ids_below (apply_op op tbl)"
  by (cases op)
     (auto simp: ids_below_def open_session_def append_chunk_def drain_def close_session_def
        evict_def Let_def less_Suc_eq split: option.splits)

lemma ids_below_run: "ids_below tbl \<Longrightarrow> ids_below (run_ops ops tbl)"
  unfolding run_ops_def by (induction ops arbitrary: tbl) (simp_all add: ids_below_apply)

lemma ids_below_empty: "ids_below empty_table"
  by (simp add: ids_below_def empty_table_def)

lemma owned_by_open:
  "ids_below tbl \<Longrightarrow> owned_by (fst (open_session tbl acct tgt now)) acct tgt (snd (open_session tbl acct tgt now))"
  by (auto simp: ids_below_def owned_by_def open_session_def Let_def)

lemma owned_by_apply: "owned_by sid acct tgt tbl \<Longrightarrow> owned_by sid acct tgt (apply_op op tbl)"
  by (cases op)
     (auto simp: owned_by_def open_session_def append_chunk_def drain_def close_session_def
        evict_def Let_def less_Suc_eq split: option.splits)

lemma owned_by_run: "owned_by sid acct tgt tbl \<Longrightarrow> owned_by sid acct tgt (run_ops ops tbl)"
  unfolding run_ops_def by (induction ops arbitrary: tbl) (simp_all add: owned_by_apply)

lemma dead_after_open:
  "owned_by sid acct tgt tbl \<Longrightarrow> dead sid (snd (open_session tbl acct tgt now))"
  by (auto simp: owned_by_def dead_def open_session_def Let_def is_open_for_def less_Suc_eq
      intro: stream_status.exhaust)

lemma dead_apply: "dead sid tbl \<Longrightarrow> dead sid (apply_op op tbl)"
  by (cases op)
     (auto simp: dead_def open_session_def append_chunk_def drain_def close_session_def
        evict_def Let_def less_Suc_eq split: option.splits)

lemma dead_run: "dead sid tbl \<Longrightarrow> dead sid (run_ops ops tbl)"
  unfolding run_ops_def by (induction ops arbitrary: tbl) (simp_all add: dead_apply)

lemma dead_append: "dead sid tbl \<Longrightarrow> append_chunk tbl sid chunk now = (False, tbl)"
  by (auto simp: dead_def append_chunk_def lookup_session_def split: option.splits
      dest!: find_Some_iff [THEN iffD1] dest: nth_mem)

lemma open_session_only_open:
  "map streamId (filter (is_open_for acct tgt) (sessions (snd (open_session tbl acct tgt now)))) =
     [fst (open_session tbl acct tgt now)]"
proof -
  have "filter (is_open_for acct tgt)
          (map (\<lambda>s. if is_open_for acct tgt s then s\<lparr>status := Closed\<rparr> else s) xs) = []" for xs
    by (induction xs) (auto simp: is_open_for_def)
  then show ?thesis
    by (simp add: open_session_def Let_def is_open_for_def)
qed

lemma open_session_fresh_id:
  "fst (open_session tbl acct tgt now) = nextId tbl"
  by (simp add: open_session_def Let_def)

text \<open>
  C4.  In every reachable state of the table (whatever operations were applied to the
  empty table) at most one session per \<open>(accountId, target)\<close> pair is open.  And
  \<open>open\<close> closes any prior open session for its pair: take any reachable table, open
  a session for a pair, let any operations follow, open a second session for the same
  pair; then the second session is the only open one for the pair, it is not the
  first, and an append to the first session's identifier, issued after the second
  open and after whatever operations followed it, returns \<open>false\<close> and changes
  nothing.
\<close>

theorem single_open_invariant:
  "single_open (run_ops ops empty_table) \<and>
   (let t0 = run_ops ops empty_table;
        (sid1, t1) = open_session t0 acct tgt now1;
        (sid2, t2) = open_session (run_ops between t1) acct tgt now2
    in map streamId (filter (is_open_for acct tgt) (sessions t2)) = [sid2] \<and>
       sid1 \<noteq> sid2 \<and>
       append_chunk (run_ops after t2) sid1 chunk now3 = (False, run_ops after t2))"
proof -
  define t0 where "t0 = run_ops ops empty_table"
  define sid1 where "sid1 = fst (open_session t0 acct tgt now1)"
  define t1 where "t1 = snd (open_session t0 acct tgt now1)"
  define sid2 where "sid2 = fst (open_session (run_ops between t1) acct tgt now2)"
  define t2 where "t2 = snd (open_session (run_ops between t1) acct tgt now2)"
  have inv: "single_open t0"
    unfolding t0_def using single_open_empty by (rule single_open_run)
  have "ids_below t0"
    unfolding t0_def using ids_below_empty by (rule ids_below_run)
  then have "owned_by sid1 acct tgt t1"
    unfolding sid1_def t1_def by (rule owned_by_open)
  then have own: "owned_by sid1 acct tgt (run_ops between t1)"
    by (rule owned_by_run)
  then have "dead sid1 t2"
    unfolding t2_def by (rule dead_after_open)
  then have "dead sid1 (run_ops after t2)"
    by (rule dead_run)
  then have app: "append_chunk (run_ops after t2) sid1 chunk now3 = (False, run_ops after t2)"
    by (rule dead_append)
  have only: "map streamId (filter (is_open_for acct tgt) (sessions t2)) = [sid2]"
    unfolding t2_def sid2_def by (rule open_session_only_open)
  have "sid1 < nextId (run_ops between t1)"
    using own by (simp add: owned_by_def)
  then have ne: "sid1 \<noteq> sid2"
    by (simp add: sid2_def open_session_fresh_id)
  show ?thesis
    using inv only ne app
    by (simp add: Let_def split_beta t0_def [symmetric] t1_def [symmetric] sid1_def [symmetric]
        t2_def [symmetric] sid2_def [symmetric])
qed

text \<open>
  C4 at a concrete input: two opens for the same pair from the empty table; the first
  gets identifier 0, the second 1, and a later append to 0 is refused.
\<close>

theorem single_open_invariant_witness:
  "single_open (snd (open_session (snd (open_session empty_table ''default'' ''user:alice'' 1))
      ''default'' ''user:alice'' 2))
   \<and> fst (open_session empty_table ''default'' ''user:alice'' 1) = 0
   \<and> fst (open_session (snd (open_session empty_table ''default'' ''user:alice'' 1))
        ''default'' ''user:alice'' 2) = 1
   \<and> fst (append_chunk
        (snd (open_session (snd (open_session empty_table ''default'' ''user:alice'' 1))
           ''default'' ''user:alice'' 2)) 0 ''late'' 3) = False"
proof -
  have ops: "run_ops [OpOpen ''default'' ''user:alice'' 1, OpOpen ''default'' ''user:alice'' 2]
      empty_table =
    snd (open_session (snd (open_session empty_table ''default'' ''user:alice'' 1))
      ''default'' ''user:alice'' 2)"
    by (simp add: run_ops_def)
  have none: "run_ops [] tbl = tbl" for tbl
    by (simp add: run_ops_def)
  have ids: "fst (open_session empty_table ''default'' ''user:alice'' 1) = 0"
    "fst (open_session (snd (open_session empty_table ''default'' ''user:alice'' 1))
        ''default'' ''user:alice'' 2) = 1"
    by (simp_all add: open_session_def empty_table_def Let_def)
  note first = single_open_invariant
      [of "[OpOpen ''default'' ''user:alice'' 1, OpOpen ''default'' ''user:alice'' 2]"
          "''default''" "''user:alice''" 1 "[]" 2 "[]" "''late''" 3, THEN conjunct1]
  note second = single_open_invariant
      [of "[]" "''default''" "''user:alice''" 1 "[]" 2 "[]" "''late''" 3, THEN conjunct2]
  have inv: "single_open (snd (open_session (snd (open_session empty_table ''default'' ''user:alice'' 1))
      ''default'' ''user:alice'' 2))"
    using first by (simp only: ops)
  have "fst (append_chunk
        (snd (open_session (snd (open_session empty_table ''default'' ''user:alice'' 1))
           ''default'' ''user:alice'' 2))
        (fst (open_session empty_table ''default'' ''user:alice'' 1)) ''late'' 3) = False"
    using second by (simp only: Let_def split_beta none fst_conv)
  then have refused: "fst (append_chunk
        (snd (open_session (snd (open_session empty_table ''default'' ''user:alice'' 1))
           ''default'' ''user:alice'' 2)) 0 ''late'' 3) = False"
    by (simp only: ids)
  show ?thesis
    using inv ids refused by (simp only: simp_thms)
qed


section \<open>Properties of the codec\<close>

lemma b64_alphabet_length: "length b64_alphabet = 64"
  by (simp add: b64_alphabet_def)

lemma b64_alphabet_distinct: "distinct b64_alphabet"
  by (simp add: b64_alphabet_def)

lemma b64_val_sym: "n < 64 \<Longrightarrow> b64_val (b64_sym n) = Some n"
proof -
  assume n: "n < 64"
  have "map_of (zip b64_alphabet [0..<64]) (b64_alphabet ! n) = Some ([0..<64] ! n)"
    by (rule map_of_zip_nth) (simp_all add: b64_alphabet_length b64_alphabet_distinct n)
  then show ?thesis using n by (simp add: b64_val_def b64_sym_def del: upt_Suc)
qed

lemma b64_sym_not_pad: "n < 64 \<Longrightarrow> b64_sym n \<noteq> CHR ''=''"
proof -
  assume n: "n < 64"
  have "CHR ''='' \<notin> set b64_alphabet" by (simp add: b64_alphabet_def)
  moreover have "b64_sym n \<in> set b64_alphabet"
    using n by (simp add: b64_sym_def b64_alphabet_length)
  ultimately show ?thesis by metis
qed

lemma unat_byte_less: "unat (b :: byte) < 256"
  using unsigned_less [of b, where 'a=nat] by simp

lemma sextets:
  fixes a b c :: byte
  shows "unat a div 4 < 64" "unat a mod 4 * 16 + unat b div 16 < 64"
    "unat b mod 16 * 4 + unat c div 64 < 64" "unat c mod 64 < 64"
    "unat a mod 4 * 16 < 64" "unat b mod 16 * 4 < 64"
  using unat_byte_less [of a] unat_byte_less [of b] unat_byte_less [of c] by simp_all

lemma octets:
  fixes a b c :: byte
  shows "(of_nat (unat a div 4 * 4 + (unat a mod 4 * 16 + unat b div 16) div 16) :: byte) = a"
    "(of_nat ((unat a mod 4 * 16 + unat b div 16) mod 16 * 16 + (unat b mod 16 * 4 + unat c div 64) div 4) :: byte) = b"
    "(of_nat ((unat b mod 16 * 4 + unat c div 64) mod 4 * 64 + unat c mod 64) :: byte) = c"
    "(of_nat (unat a div 4 * 4 + (unat a mod 4 * 16) div 16) :: byte) = a"
    "(of_nat ((unat a mod 4 * 16 + unat b div 16) mod 16 * 16 + (unat b mod 16 * 4) div 4) :: byte) = b"
proof -
  have b: "unat b < 256" and c: "unat c < 256" by (rule unat_byte_less)+
  have 1: "unat a div 4 * 4 + (unat a mod 4 * 16 + unat b div 16) div 16 = unat a"
    using b by simp
  have 2: "(unat a mod 4 * 16 + unat b div 16) mod 16 * 16 + (unat b mod 16 * 4 + unat c div 64) div 4 = unat b"
    using b c by simp
  have 3: "(unat b mod 16 * 4 + unat c div 64) mod 4 * 64 + unat c mod 64 = unat c"
    using c by simp
  have 4: "unat a div 4 * 4 + (unat a mod 4 * 16) div 16 = unat a" by simp
  have 5: "(unat a mod 4 * 16 + unat b div 16) mod 16 * 16 + (unat b mod 16 * 4) div 4 = unat b"
    using b by simp
  show "(of_nat (unat a div 4 * 4 + (unat a mod 4 * 16 + unat b div 16) div 16) :: byte) = a"
    by (simp only: 1 of_nat_unat ucast_id)
  show "(of_nat ((unat a mod 4 * 16 + unat b div 16) mod 16 * 16 + (unat b mod 16 * 4 + unat c div 64) div 4) :: byte) = b"
    by (simp only: 2 of_nat_unat ucast_id)
  show "(of_nat ((unat b mod 16 * 4 + unat c div 64) mod 4 * 64 + unat c mod 64) :: byte) = c"
    by (simp only: 3 of_nat_unat ucast_id)
  show "(of_nat (unat a div 4 * 4 + (unat a mod 4 * 16) div 16) :: byte) = a"
    by (simp only: 4 of_nat_unat ucast_id)
  show "(of_nat ((unat a mod 4 * 16 + unat b div 16) mod 16 * 16 + (unat b mod 16 * 4) div 4) :: byte) = b"
    by (simp only: 5 of_nat_unat ucast_id)
qed

lemma decode_quad:
  assumes "v1 < 64" "v2 < 64" "v3 < 64" "v4 < 64"
  shows "b64_decode (b64_sym v1 # b64_sym v2 # b64_sym v3 # b64_sym v4 # rest) =
     map_option (\<lambda>bs. of_nat (v1 * 4 + v2 div 16) # of_nat (v2 mod 16 * 16 + v3 div 4) #
                       of_nat (v3 mod 4 * 64 + v4) # bs) (b64_decode rest)"
  using assms by (cases "b64_decode rest") (simp_all add: b64_val_sym b64_sym_not_pad)

lemma decode_pad1:
  assumes "v1 < 64" "v2 < 64" "v3 < 64"
  shows "b64_decode [b64_sym v1, b64_sym v2, b64_sym v3, CHR ''=''] =
     Some [of_nat (v1 * 4 + v2 div 16), of_nat (v2 mod 16 * 16 + v3 div 4)]"
  using assms by (simp add: b64_val_sym b64_sym_not_pad)

lemma decode_pad2:
  assumes "v1 < 64" "v2 < 64"
  shows "b64_decode [b64_sym v1, b64_sym v2, CHR ''='', CHR ''=''] =
     Some [of_nat (v1 * 4 + v2 div 16)]"
  using assms by (simp add: b64_val_sym b64_sym_not_pad)

lemma b64_roundtrip: "b64_decode (b64_encode bs) = Some bs"
proof (induction bs rule: b64_encode.induct)
  case (1 a b c rest)
  have "b64_decode (b64_encode (a # b # c # rest)) =
      map_option (\<lambda>bs. a # b # c # bs) (b64_decode (b64_encode rest))"
    by (simp only: b64_encode.simps append_Cons append_Nil decode_quad [OF sextets(1-4)] octets)
  then show ?case by (simp only: 1 option.map)
next
  case (2 a b)
  show ?case
    by (simp only: b64_encode.simps decode_pad1 [OF sextets(1,2,6)] octets)
next
  case (3 a)
  show ?case
    by (simp only: b64_encode.simps decode_pad2 [OF sextets(1,5)] octets)
next
  case 4
  show ?case by simp
qed

lemma utf8_roundtrip: "utf8_string (utf8_bytes v) = v"
proof -
  have "char_of_byte (byte_of_char c) = c" for c
  proof -
    have "unat (of_nat (of_char c) :: byte) = of_char c mod 256"
      by (simp add: unat_of_nat)
    then show ?thesis by (simp add: char_of_byte_def byte_of_char_def)
  qed
  then show ?thesis by (simp add: utf8_string_def utf8_bytes_def comp_def)
qed

lemma blocks_of_concat:
  assumes "0 < n" "\<forall>b \<in> set bs. length b = n"
  shows "blocks_of n (concat bs) = bs"
  using assms
proof (induction bs)
  case Nil
  then show ?case by (subst blocks_of.simps) simp
next
  case (Cons b bs)
  then have "b \<noteq> []" by auto
  then show ?case using Cons by (subst blocks_of.simps) simp
qed

lemma concat_blocks_of: "0 < n \<Longrightarrow> concat (blocks_of n xs) = xs"
proof (induction n xs rule: blocks_of.induct)
  case (1 n xs)
  then show ?case by (subst blocks_of.simps) auto
qed

lemma blocks_of_lengths:
  "0 < n \<Longrightarrow> length xs mod n = 0 \<Longrightarrow> \<forall>b \<in> set (blocks_of n xs). length b = n"
proof (induction n xs rule: blocks_of.induct)
  case (1 n xs)
  show ?case
  proof (cases "xs = []")
    case True
    then show ?thesis by (subst blocks_of.simps) simp
  next
    case False
    have le: "n \<le> length xs"
    proof (rule ccontr)
      assume "\<not> n \<le> length xs"
      then have "length xs mod n = length xs" by simp
      then show False using "1.prems"(2) False by simp
    qed
    have "(length xs - n) mod n = length xs mod n"
      using le by (simp add: le_mod_geq)
    then have m: "length (drop n xs) mod n = 0"
      using "1.prems"(2) by simp
    have rest: "\<forall>b \<in> set (blocks_of n (drop n xs)). length b = n"
    proof (rule "1.IH")
      show "\<not> (n = 0 \<or> xs = [])" using False "1.prems"(1) by simp
      show "0 < n" by (rule "1.prems"(1))
      show "length (drop n xs) mod n = 0" by (rule m)
    qed
    have eq: "blocks_of n xs = take n xs # blocks_of n (drop n xs)"
      using False "1.prems"(1) by (subst blocks_of.simps) simp
    have first: "length (take n xs) = n"
      using le by simp
    show ?thesis
    proof
      fix b
      assume "b \<in> set (blocks_of n xs)"
      then have "b \<in> set (take n xs # blocks_of n (drop n xs))"
        by (simp only: eq)
      then have "b = take n xs \<or> b \<in> set (blocks_of n (drop n xs))"
        by (simp only: set_simps insert_iff)
      then show "length b = n"
        using first rest by blast
    qed
  qed
qed

lemma xor_bytes_cancel: "length p = length q \<Longrightarrow> xor_bytes (xor_bytes p q) q = p"
proof (induction p q rule: list_induct2)
  case Nil
  then show ?case by (simp add: xor_bytes_def)
next
  case (Cons x xs y ys)
  then show ?case by (simp add: xor_bytes_def xor.assoc)
qed

lemma length_xor_bytes: "length (xor_bytes p q) = min (length p) (length q)"
  by (simp add: xor_bytes_def)

lemma cbc_roundtrip:
  assumes "sound_cipher bc"
  shows "length prev = BLOCK_SIZE \<Longrightarrow> \<forall>p \<in> set ps. length p = BLOCK_SIZE \<Longrightarrow>
         cbc_decrypt bc key prev (cbc_encrypt bc key prev ps) = ps"
proof (induction ps arbitrary: prev)
  case Nil
  then show ?case by simp
next
  case (Cons p ps)
  have lx: "length (xor_bytes p prev) = BLOCK_SIZE"
    using Cons.prems by (simp add: length_xor_bytes)
  have e: "length (encrypt_block bc key (xor_bytes p prev)) = BLOCK_SIZE"
    and d: "decrypt_block bc key (encrypt_block bc key (xor_bytes p prev)) = xor_bytes p prev"
    using assms lx unfolding sound_cipher_def by blast+
  have "xor_bytes (xor_bytes p prev) prev = p"
    using Cons.prems by (simp add: xor_bytes_cancel)
  then show ?case using Cons e d by (simp add: Let_def)
qed

lemma cbc_encrypt_lengths:
  assumes "sound_cipher bc"
  shows "length prev = BLOCK_SIZE \<Longrightarrow> \<forall>p \<in> set ps. length p = BLOCK_SIZE \<Longrightarrow>
         \<forall>c \<in> set (cbc_encrypt bc key prev ps). length c = BLOCK_SIZE"
proof (induction ps arbitrary: prev)
  case Nil
  then show ?case by simp
next
  case (Cons p ps)
  have lx: "length (xor_bytes p prev) = BLOCK_SIZE"
    using Cons.prems by (simp add: length_xor_bytes)
  have e: "length (encrypt_block bc key (xor_bytes p prev)) = BLOCK_SIZE"
    using assms lx unfolding sound_cipher_def by blast
  show ?case using Cons e by (simp add: Let_def)
qed

lemma length_cbc_encrypt: "length (cbc_encrypt bc key prev ps) = length ps"
  by (induction ps arbitrary: prev) (simp_all add: Let_def)

lemma length_pkcs7_pad: "length (pkcs7_pad bs) mod BLOCK_SIZE = 0"
proof -
  have "(length bs + (16 - length bs mod 16)) mod 16 = 0"
    by presburger
  then show ?thesis by (simp add: pkcs7_pad_def BLOCK_SIZE_def Let_def)
qed

lemma pkcs7_pad_nonempty: "pkcs7_pad bs \<noteq> []"
  by (simp add: pkcs7_pad_def BLOCK_SIZE_def Let_def)

lemma pkcs7_roundtrip: "pkcs7_unpad (pkcs7_pad bs) = Inr bs"
proof -
  define n where "n = BLOCK_SIZE - length bs mod BLOCK_SIZE"
  have n: "0 < n" "n \<le> 16" by (simp_all add: n_def BLOCK_SIZE_def)
  have u: "unat (of_nat n :: byte) = n"
    using n by (simp add: unat_of_nat)
  have l: "last (bs @ replicate n (of_nat n :: byte)) = of_nat n"
    using n by simp
  show ?thesis
    unfolding pkcs7_pad_def pkcs7_unpad_def Let_def n_def [symmetric]
    using n by (simp add: l u BLOCK_SIZE_def)
qed

lemma read_be32: "n < 2 ^ 32 \<Longrightarrow> read_be (be32 n) = n"
proof -
  assume n: "n < 2 ^ 32"
  have "unat (of_nat (n div 2 ^ 24) :: byte) = n div 2 ^ 24"
    using n by (simp add: unat_of_nat)
  moreover have "unat (of_nat (n div 2 ^ 16) :: byte) = n div 2 ^ 16 mod 256"
    by (simp add: unat_of_nat)
  moreover have "unat (of_nat (n div 2 ^ 8) :: byte) = n div 2 ^ 8 mod 256"
    by (simp add: unat_of_nat)
  moreover have "unat (of_nat n :: byte) = n mod 256"
    by (simp add: unat_of_nat)
  moreover have "16777216 * (n div 16777216) + 65536 * (n div 65536 mod 256) +
      n div 256 mod 256 * 256 + n mod 256 = n"
  proof -
    have a: "n mod (65536 * 256) = 65536 * (n div 65536 mod 256) + n mod 65536"
      by (rule mod_mult2_eq)
    have b: "n mod (256 * 256) = 256 * (n div 256 mod 256) + n mod 256"
      by (rule mod_mult2_eq)
    have c: "16777216 * (n div 16777216) + n mod 16777216 = n"
      by (rule mult_div_mod_eq)
    from a b c show ?thesis by simp
  qed
  ultimately show ?thesis
    by (simp add: read_be_def be32_def)
qed

lemma key_length: "decodeEncodingAESKey k = Inr key \<Longrightarrow> length key = BLOCK_SIZE"
  by (auto simp: decodeEncodingAESKey_def Let_def BLOCK_SIZE_def split: option.splits if_splits)

lemma length_concat_blocks:
  "\<forall>b \<in> set bs. length b = n \<Longrightarrow> length (concat bs) = n * length bs"
  by (induction bs) simp_all

lemma blocks_of_nonempty: "0 < n \<Longrightarrow> xs \<noteq> [] \<Longrightarrow> blocks_of n xs \<noteq> []"
  by (subst blocks_of.simps) simp

lemma cbc_layer_roundtrip:
  assumes bc: "sound_cipher bc" and key: "length key = BLOCK_SIZE"
  defines "padded \<equiv> \<lambda>frame. pkcs7_pad frame"
  defines "raw \<equiv> \<lambda>frame. concat (cbc_encrypt bc key key (blocks_of BLOCK_SIZE (pkcs7_pad frame)))"
  shows "raw frame \<noteq> []" "length (raw frame) mod BLOCK_SIZE = 0"
    "pkcs7_unpad (concat (cbc_decrypt bc key key (blocks_of BLOCK_SIZE (raw frame)))) = Inr frame"
proof -
  let ?ps = "blocks_of BLOCK_SIZE (pkcs7_pad frame)"
  let ?cs = "cbc_encrypt bc key key ?ps"
  have pos: "0 < BLOCK_SIZE" by (simp add: BLOCK_SIZE_def)
  have ps: "\<forall>p \<in> set ?ps. length p = BLOCK_SIZE"
    using pos length_pkcs7_pad by (rule blocks_of_lengths)
  have cs: "\<forall>c \<in> set ?cs. length c = BLOCK_SIZE"
    by (rule cbc_encrypt_lengths [OF bc key ps])
  have ne: "?cs \<noteq> []"
    using blocks_of_nonempty [OF pos pkcs7_pad_nonempty, of frame] length_cbc_encrypt [of bc key key ?ps]
    by (metis length_0_conv)
  then obtain c cs' where c: "?cs = c # cs'" by (cases ?cs) auto
  then have "length c = BLOCK_SIZE" using cs by simp
  then have "c \<noteq> []" using pos by auto
  then show "raw frame \<noteq> []" using c by (simp add: raw_def)
  show "length (raw frame) mod BLOCK_SIZE = 0"
    using length_concat_blocks [OF cs] by (simp add: raw_def)
  have "blocks_of BLOCK_SIZE (raw frame) = ?cs"
    unfolding raw_def using pos cs by (rule blocks_of_concat)
  moreover have "cbc_decrypt bc key key ?cs = ?ps"
    by (rule cbc_roundtrip [OF bc key ps])
  moreover have "concat ?ps = pkcs7_pad frame"
    using pos by (rule concat_blocks_of)
  ultimately show "pkcs7_unpad (concat (cbc_decrypt bc key key (blocks_of BLOCK_SIZE (raw frame)))) = Inr frame"
    by (simp add: pkcs7_roundtrip)
qed

lemma frame_parse:
  fixes prefix msg rid :: "byte list"
  assumes "length prefix = 16" "length msg < 2 ^ 32"
  defines "frame \<equiv> prefix @ be32 (length msg) @ msg @ rid"
  shows "\<not> length frame < 20" "read_be (take 4 (drop 16 frame)) = length msg"
    "take (length msg) (drop 20 frame) = msg" "drop (20 + length msg) frame = rid"
    "length (take (length msg) (drop 20 frame)) = length msg"
proof -
  have l: "length (be32 n) = 4" for n by (simp add: be32_def)
  show "\<not> length frame < 20" using assms(1) by (simp add: frame_def l)
  have "take 4 (drop 16 frame) = be32 (length msg)"
    using assms(1) by (simp add: frame_def l)
  then show "read_be (take 4 (drop 16 frame)) = length msg"
    using assms(2) by (simp add: read_be32)
  show "take (length msg) (drop 20 frame) = msg"
    using assms(1) by (simp add: frame_def l)
  show "drop (20 + length msg) frame = rid"
    using assms(1) by (simp add: frame_def l)
  show "length (take (length msg) (drop 20 frame)) = length msg"
    using assms(1) by (simp add: frame_def l)
qed

text \<open>
  C1.  Decrypting what encryption produced gives the plaintext back: for every
  plaintext, every valid encoding key and every receiver id (and whatever random bytes
  the prefix was drawn from), \<open>encrypt\<close> succeeds and \<open>decrypt\<close>, under the same key
  and receiver id, returns exactly the plaintext.  A key is valid when it decodes; the
  plaintext must fit the 4-byte length field; the cipher is any sound block cipher.
\<close>

theorem wecom_roundtrip:
  assumes "sound_cipher bc"
    and "decodeEncodingAESKey encodingAESKey = Inr key"
    and "length plaintext < 2 ^ 32"
  shows "\<exists>encrypted.
           encryptWecomPlaintext bc random encodingAESKey receiveId plaintext = Inr encrypted \<and>
           decryptWecomEncrypted bc encodingAESKey receiveId encrypted = Inr plaintext"
proof -
  define msg where "msg = utf8_bytes plaintext"
  define frame where "frame = map random [0..<16] @ be32 (length msg) @ msg @ utf8_bytes receiveId"
  define raw where "raw = concat (cbc_encrypt bc key key (blocks_of BLOCK_SIZE (pkcs7_pad frame)))"
  have len: "length msg < 2 ^ 32" using assms(3) by (simp add: msg_def utf8_bytes_def)
  have enc: "encryptWecomPlaintext bc random encodingAESKey receiveId plaintext = Inr (b64_encode raw)"
    using assms(2) len
    by (simp add: encryptWecomPlaintext_def Let_def msg_def [symmetric] frame_def [symmetric]
        raw_def [symmetric] not_le [symmetric])
  have key: "length key = BLOCK_SIZE" using assms(2) by (rule key_length)
  note layer = cbc_layer_roundtrip [OF assms(1) key, of frame, folded raw_def]
  have "length (map random [0..<16]) = 16" by simp
  note parse = frame_parse [OF this len, of "utf8_bytes receiveId", folded frame_def]
  have "decryptWecomEncrypted bc encodingAESKey receiveId (b64_encode raw) = Inr (utf8_string msg)"
    using assms(2) layer parse
    by (simp add: decryptWecomEncrypted_def b64_roundtrip Let_def del: length_take)
  then show ?thesis using enc by (simp add: msg_def utf8_roundtrip)
qed

lemma caesar_sound: "sound_cipher caesar"
  by (simp add: sound_cipher_def caesar_def comp_def)

lemma test_key_decodes:
  "decodeEncodingAESKey test_encodingAESKey =
     Inr [0x69, 0xB7, 0x1D, 0x79, 0xF8, 0x21, 0x8A, 0x39, 0x25, 0x9A, 0x7A, 0x29, 0xAA, 0xBB, 0x2D, 0xBA]"
  by (simp add: decodeEncodingAESKey_def test_encodingAESKey_def b64_val_def b64_alphabet_def
      upt_conv_Cons)

text \<open>
  The hypotheses of C1 at a concrete input: the tests' encoding key decodes, the
  shifting cipher is sound, and a short message comes back.
\<close>

theorem wecom_roundtrip_witness:
  "sound_cipher caesar
   \<and> decodeEncodingAESKey test_encodingAESKey =
       Inr [0x69, 0xB7, 0x1D, 0x79, 0xF8, 0x21, 0x8A, 0x39, 0x25, 0x9A, 0x7A, 0x29, 0xAA, 0xBB, 0x2D, 0xBA]
   \<and> length ''hello wecom'' < (2 :: nat) ^ 32
   \<and> (\<exists>encrypted.
         encryptWecomPlaintext caesar (\<lambda>i. of_nat i) test_encodingAESKey test_receiveId
           ''hello wecom'' = Inr encrypted \<and>
         decryptWecomEncrypted caesar test_encodingAESKey test_receiveId encrypted =
           Inr ''hello wecom'')"
proof -
  have len: "length ''hello wecom'' < (2 :: nat) ^ 32"
    by simp
  show ?thesis
    using wecom_roundtrip [OF caesar_sound test_key_decodes len] caesar_sound test_key_decodes len
    by blast
qed

end
